theory Spec2Isabelle
  imports Complex_Main "HOL-Library.AList" "HOL-Library.Sublist"
begin

section \<open>SafeLoRA (\<^verbatim>\<open>src/peft/utils/safelora.py\<close>): a shallow embedding\<close>

text \<open>
  The module has one configuration dataclass (\<^verbatim>\<open>SafeLoraConfig\<close>), one loader class
  (\<^verbatim>\<open>SafetensorLoader\<close>) and three functions (\<^verbatim>\<open>get_aligned_matrix\<close>,
  \<^verbatim>\<open>project_weights\<close>, \<^verbatim>\<open>apply_safelora\<close>). Every \<^verbatim>\<open>raise\<close>, failed
  \<^verbatim>\<open>assert\<close>, failed attribute or name lookup and failed index of the source is a value
  \<open>Inl e\<close> of the model. Tensor arithmetic (\<^verbatim>\<open>torch\<close>, \<^verbatim>\<open>numpy.round\<close>) and the file
  system (\<^verbatim>\<open>os.path.exists\<close>, \<^verbatim>\<open>safe_open\<close>, the hub) are libraries outside the module:
  the model takes them as parameters (records of functions), so that every theorem holds for
  whatever those libraries compute, floating point included.
\<close>

subsection \<open>Exceptions\<close>

datatype error =
    ValueError string
  | RuntimeError
  | FileNotFoundError
  | AttributeError string
  | KeyError string
  | TypeError
  | IndexError
  | AssertionError
  | UnboundLocalError string
  | SafetensorError
  | OpenError
  | TorchError

definition bind_err :: "error + 'a \<Rightarrow> ('a \<Rightarrow> error + 'b) \<Rightarrow> error + 'b" where
  "bind_err m f = (case m of Inl e \<Rightarrow> Inl e | Inr x \<Rightarrow> f x)"

subsection \<open>Python floats, \<^verbatim>\<open>numpy.sort\<close>, slices\<close>

text \<open>
  A Python float is a finite number, an infinity or not-a-number. Finite floats are modelled
  as reals (every finite float is one). \<^verbatim>\<open>x <= y\<close> is false as soon as one side is
  not-a-number.
\<close>

datatype pyfloat = Fin real | PInf | NInf | NaN

fun float_le :: "pyfloat \<Rightarrow> pyfloat \<Rightarrow> bool" where
  "float_le NaN y = False"
| "float_le x NaN = False"
| "float_le NInf y = True"
| "float_le x PInf = True"
| "float_le (Fin x) (Fin y) = (x \<le> y)"
| "float_le PInf y = False"
| "float_le x NInf = False"

text \<open>\<^verbatim>\<open>numpy.sort\<close> sorts ascending and puts not-a-number last.\<close>

fun np_le :: "pyfloat \<Rightarrow> pyfloat \<Rightarrow> bool" where
  "np_le x NaN = True"
| "np_le NaN y = False"
| "np_le x y = float_le x y"

fun np_insert :: "pyfloat \<Rightarrow> pyfloat list \<Rightarrow> pyfloat list" where
  "np_insert x [] = [x]"
| "np_insert x (y # ys) = (if np_le x y then x # y # ys else y # np_insert x ys)"

definition numpy_sort :: "pyfloat list \<Rightarrow> pyfloat list" where
  "numpy_sort xs = foldr np_insert xs []"

text \<open>\<^verbatim>\<open>xs[:k]\<close> for an integer \<open>k\<close>: a negative \<open>k\<close> counts from the end.\<close>

definition py_slice_to :: "'a list \<Rightarrow> int \<Rightarrow> 'a list" where
  "py_slice_to xs k =
     (if 0 \<le> k then take (nat k) xs else take (nat (int (length xs) + k)) xs)"

text \<open>\<^verbatim>\<open>xs[-1]\<close> raises \<^verbatim>\<open>IndexError\<close> on an empty sequence.\<close>

definition py_last :: "'a list \<Rightarrow> error + 'a" where
  "py_last xs = (if xs = [] then Inl IndexError else Inr (last xs))"

text \<open>\<^verbatim>\<open>xs[i]\<close> for a counter \<open>i\<close> that starts at 0 and only grows.\<close>

definition py_index :: "'a list \<Rightarrow> nat \<Rightarrow> error + 'a" where
  "py_index xs i = (if i < length xs then Inr (xs ! i) else Inl IndexError)"

subsection \<open>Strings and paths\<close>

text \<open>\<^verbatim>\<open>sub in s\<close>: \<open>sub\<close> occurs in \<open>s\<close> as a contiguous substring.\<close>

fun py_in :: "string \<Rightarrow> string \<Rightarrow> bool" where
  "py_in sub [] = (sub = [])"
| "py_in sub (c # cs) = (prefix sub (c # cs) \<or> py_in sub cs)"

definition endswith :: "string \<Rightarrow> string \<Rightarrow> bool" where
  "endswith s suf = prefix (rev suf) (rev s)"

text \<open>
  \<^verbatim>\<open>os.path.join(a, b)\<close> on a POSIX system, for a second component that is a plain file name
  (the module only joins with \<^verbatim>\<open>model.safetensors\<close>, \<^verbatim>\<open>adapter_config.json\<close> and
  \<^verbatim>\<open>adapter_model.safetensors\<close>).
\<close>

definition os_path_join :: "string \<Rightarrow> string \<Rightarrow> string" where
  "os_path_join a b = (if a = [] \<or> endswith a ''/'' then a @ b else a @ ''/'' @ b)"

text \<open>
  \<^verbatim>\<open>s.rpartition("/")\<close>: the parts before and after the last separator; when there is
  none, the head is empty and the tail is the whole string.
\<close>

definition rpartition_head :: "string \<Rightarrow> string" where
  "rpartition_head s =
     (if CHR ''/'' \<in> set s then rev (tl (dropWhile (\<lambda>c. c \<noteq> CHR ''/'') (rev s))) else [])"

definition rpartition_tail :: "string \<Rightarrow> string" where
  "rpartition_tail s = rev (takeWhile (\<lambda>c. c \<noteq> CHR ''/'') (rev s))"

subsection \<open>Dictionaries\<close>

text \<open>
  A Python \<^verbatim>\<open>dict\<close> with string keys: an association list in insertion order.
  \<^verbatim>\<open>d[k] = v\<close> is \<^const>\<open>AList.update\<close>: an existing key keeps its place, a new key goes
  last. \<^verbatim>\<open>d[k]\<close> raises \<^verbatim>\<open>KeyError\<close> on a missing key.
\<close>

type_synonym 'v dict = "(string \<times> 'v) list"

definition dict_get :: "'v dict \<Rightarrow> string \<Rightarrow> error + 'v" where
  "dict_get d k = (case map_of d k of None \<Rightarrow> Inl (KeyError k) | Some v \<Rightarrow> Inr v)"

subsection \<open>\<^verbatim>\<open>SafeLoraConfig\<close> (lines 31 to 83)\<close>

text \<open>
  The eight declared fields. The three paths are declared \<^verbatim>\<open>str\<close> with default
  \<^verbatim>\<open>None\<close>, so a path is \<open>None\<close> or a string. \<open>saveWeights\<close> is not a field of the
  dataclass: it is the attribute that \<^verbatim>\<open>apply_safelora\<close> reads at line 246, present only
  when a caller has assigned it to the object after construction (\<open>None\<close>: absent).
\<close>

record SafeLoraConfig =
  base_model_path :: "string option"
  aligned_model_path :: "string option"
  peft_model_path :: "string option"
  select_layers_type :: string
  threshold :: pyfloat
  num_proj_layers :: int
  devices :: string
  save_weights :: bool
  saveWeights :: "bool option"

definition post_init :: "SafeLoraConfig \<Rightarrow> error + SafeLoraConfig" where
  "post_init self =
     (if base_model_path self = None then Inl (ValueError ''base_model_path cannot be None.'')
      else if aligned_model_path self = None
        then Inl (ValueError ''aligned_model_path cannot be None.'')
      else if peft_model_path self = None then Inl (ValueError ''peft_model_path cannot be None.'')
      else Inr self)"

text \<open>
  The constructor the dataclass generates: it stores its arguments in the eight fields and
  calls \<^verbatim>\<open>__post_init__\<close>.
\<close>

definition SafeLoraConfig_new ::
  "string option \<Rightarrow> string option \<Rightarrow> string option \<Rightarrow> string \<Rightarrow> pyfloat \<Rightarrow> int \<Rightarrow> string \<Rightarrow> bool
     \<Rightarrow> error + SafeLoraConfig" where
  "SafeLoraConfig_new base aligned peft slt thr n dev sw =
     post_init \<lparr>base_model_path = base, aligned_model_path = aligned, peft_model_path = peft,
       select_layers_type = slt, threshold = thr, num_proj_layers = n, devices = dev,
       save_weights = sw, saveWeights = None\<rparr>"

subsection \<open>The libraries the module calls\<close>

text \<open>
  The tensor operations of \<^verbatim>\<open>torch\<close> and \<^verbatim>\<open>numpy\<close> that the module uses, over an
  abstract type \<open>'t\<close> of tensors. An operation that can raise returns \<open>error + _\<close>.
  \<^item> \<open>torch_shape x\<close> is \<^verbatim>\<open>x.shape\<close>; \<open>torch_sub x y\<close> is \<^verbatim>\<open>x - y\<close>, used only on
    tensors of one shape;
  \<^item> \<open>torch_to d x\<close> is \<^verbatim>\<open>x.to(d)\<close> for a device \<open>d\<close> (it raises on a device that does
    not exist); \<open>torch_float32\<close> and \<open>torch_bfloat16\<close> are the two casts;
  \<^item> \<open>torch_t x\<close> is \<^verbatim>\<open>x.t()\<close>, \<open>torch_mm x y\<close> is \<^verbatim>\<open>torch.mm(x, y)\<close>,
    \<open>torch_div_norm x y\<close> is \<^verbatim>\<open>x / torch.norm(y)\<close>, \<open>torch_detach_cpu x\<close> is
    \<^verbatim>\<open>x.detach().cpu()\<close>;
  \<^item> \<open>cosine_similarity x y\<close> is
    \<^verbatim>\<open>torch.nn.functional.cosine_similarity(x.reshape(1, -1), y.reshape(1, -1)).item()\<close>
    and \<open>numpy_round5 c\<close> is \<^verbatim>\<open>numpy.round(c, 5)\<close>;
  \<^item> \<open>confidence x y\<close> is
    \<^verbatim>\<open>(1 / (1 + torch.norm(x.reshape(1, -1) - y.reshape(1, -1)))).item()\<close>.
\<close>

record 't torch =
  torch_shape :: "'t \<Rightarrow> nat list"
  torch_sub :: "'t \<Rightarrow> 't \<Rightarrow> 't"
  torch_to :: "string \<Rightarrow> 't \<Rightarrow> error + 't"
  torch_float32 :: "'t \<Rightarrow> 't"
  torch_bfloat16 :: "'t \<Rightarrow> 't"
  torch_t :: "'t \<Rightarrow> error + 't"
  torch_mm :: "'t \<Rightarrow> 't \<Rightarrow> error + 't"
  torch_div_norm :: "'t \<Rightarrow> 't \<Rightarrow> 't"
  torch_detach_cpu :: "'t \<Rightarrow> 't"
  cosine_similarity :: "'t \<Rightarrow> 't \<Rightarrow> error + pyfloat"
  numpy_round5 :: "pyfloat \<Rightarrow> pyfloat"
  confidence :: "'t \<Rightarrow> 't \<Rightarrow> error + pyfloat"

text \<open>
  The \<^verbatim>\<open>target_modules\<close> entry of \<^verbatim>\<open>adapter_config.json\<close>: PEFT writes a list of
  module names or one string. \<^verbatim>\<open>list(...)\<close> of a string is the list of its characters.
  The model keeps of the parsed configuration only this entry (\<open>None\<close>: the key is absent).
\<close>

datatype json_modules = ModList "string list" | ModStr string

type_synonym peft_config = "json_modules option"

fun py_list :: "json_modules \<Rightarrow> string list" where
  "py_list (ModList l) = l"
| "py_list (ModStr s) = map (\<lambda>c. [c]) s"

text \<open>
  What the module sees of the file system and the hub:
  \<^item> \<open>path_exists p\<close> is \<^verbatim>\<open>os.path.exists(p)\<close>;
  \<^item> \<open>snapshot_download p\<close> tells whether
    \<^verbatim>\<open>snapshot_download(repo_id=p, force_download=True)\<close> returns (it raises otherwise);
  \<^item> \<open>checkpoint_shards d\<close> is the result of \<^verbatim>\<open>get_checkpoint_shard_files(d,
    cached_file(d, "model.safetensors.index.json"))\<close>: \<open>None\<close> when it raises
    \<^verbatim>\<open>OSError\<close>, otherwise the resolved shard paths and the index's \<^verbatim>\<open>weight_map\<close>;
  \<^item> \<open>safetensors_files p\<close> is the content of the safetensors file at \<open>p\<close> (\<open>None\<close>:
    \<^verbatim>\<open>safe_open\<close> raises);
  \<^item> \<open>adapter_configs p\<close> is \<^verbatim>\<open>json.load\<close> of the file at \<open>p\<close> (\<open>None\<close>: opening or
    parsing raises).
\<close>

record 't env =
  path_exists :: "string \<Rightarrow> bool"
  snapshot_download :: "string \<Rightarrow> bool"
  checkpoint_shards :: "string \<Rightarrow> (string list \<times> string dict) option"
  safetensors_files :: "string \<Rightarrow> 't dict option"
  adapter_configs :: "string \<Rightarrow> peft_config option"

subsection \<open>\<^verbatim>\<open>SafetensorLoader\<close> (lines 86 to 148)\<close>

text \<open>
  \<^verbatim>\<open>__init__\<close> assigns \<open>model_path\<close>, \<open>is_sharded\<close> and \<open>weight_map\<close>.
  \<^verbatim>\<open>get_tensor\<close> also reads \<^verbatim>\<open>self.base_model_prefix\<close>, which no code of the module
  assigns: the field is \<open>None\<close> when the attribute is absent, \<open>Some v\<close> when a caller has
  set it to \<open>v\<close> (\<^verbatim>\<open>None\<close> or a string).
\<close>

record SafetensorLoader =
  model_path :: string
  is_sharded :: bool
  weight_map :: "string dict option"
  base_model_prefix :: "string option option"

text \<open>\<^verbatim>\<open>{k: file_map[v] for k, v in weight_map.items()}\<close>: the first missing \<open>v\<close> raises.\<close>

fun resolve_weight_map :: "string dict \<Rightarrow> string dict \<Rightarrow> string dict \<Rightarrow> error + string dict" where
  "resolve_weight_map file_map [] acc = Inr acc"
| "resolve_weight_map file_map ((k, v) # items) acc =
     (case dict_get file_map v of
        Inl e \<Rightarrow> Inl e
      | Inr p \<Rightarrow> resolve_weight_map file_map items (AList.update k p acc))"

definition SafetensorLoader_init :: "'t env \<Rightarrow> string option \<Rightarrow> error + SafetensorLoader" where
  "SafetensorLoader_init E mp =
     (case mp of
        None \<Rightarrow> Inl (ValueError ''You must provide a model that model path cannot be None.'')
      | Some model_path0 \<Rightarrow>
          if \<not> path_exists E model_path0 \<and> \<not> snapshot_download E model_path0
          then Inl RuntimeError
          else
            let suffix = ''model.safetensors'';
                p = (if \<not> endswith model_path0 suffix then os_path_join model_path0 suffix
                     else model_path0)
            in if path_exists E p
               then Inr \<lparr>model_path = p, is_sharded = False, weight_map = None,
                          base_model_prefix = None\<rparr>
               else
                 (case checkpoint_shards E (rpartition_head p) of
                    None \<Rightarrow> Inl FileNotFoundError
                  | Some (resolved_archive_file, index_weight_map) \<Rightarrow>
                      let file_map =
                            fold (\<lambda>k m. AList.update (rpartition_tail k) k m)
                              resolved_archive_file []
                      in (case resolve_weight_map file_map index_weight_map [] of
                            Inl e \<Rightarrow> Inl e
                          | Inr wm \<Rightarrow>
                              Inr \<lparr>model_path = p, is_sharded = True, weight_map = Some wm,
                                   base_model_prefix = None\<rparr>)))"

text \<open>
  \<^verbatim>\<open>f.get_tensor(name)\<close> on an opened file raises \<^verbatim>\<open>SafetensorError\<close> when the file has
  no tensor of that name. In \<^verbatim>\<open>get_tensor\<close>, the test \<^verbatim>\<open>if self.base_model_prefix\<close> is
  false for \<^verbatim>\<open>None\<close> and for the empty string.
\<close>

definition file_get_tensor :: "'t dict \<Rightarrow> string \<Rightarrow> error + 't" where
  "file_get_tensor f name =
     (case map_of f name of None \<Rightarrow> Inl SafetensorError | Some tensor \<Rightarrow> Inr tensor)"

definition get_tensor :: "'t env \<Rightarrow> SafetensorLoader \<Rightarrow> string \<Rightarrow> error + 't" where
  "get_tensor E self name =
     bind_err
       (if \<not> is_sharded self then Inr (model_path self)
        else (case weight_map self of None \<Rightarrow> Inl TypeError | Some wm \<Rightarrow> dict_get wm name))
       (\<lambda>file_path.
          case safetensors_files E file_path of
            None \<Rightarrow> Inl OpenError
          | Some f \<Rightarrow>
              (case file_get_tensor f name of
                 Inr tensor \<Rightarrow> Inr tensor
               | Inl exc \<Rightarrow>
                   (case base_model_prefix self of
                      None \<Rightarrow> Inl (AttributeError ''base_model_prefix'')
                    | Some None \<Rightarrow> Inl exc
                    | Some (Some pfx) \<Rightarrow>
                        if pfx \<noteq> []
                        then file_get_tensor f (drop (length pfx + 1) name)
                        else Inl exc)))"

subsection \<open>\<^verbatim>\<open>get_aligned_matrix\<close> (lines 151 to 174)\<close>

text \<open>
  The comprehension \<^verbatim>\<open>[name for name in sl.weight_map.keys() if any(v in name for v in
  list(peft_config["target_modules"]))]\<close>. \<^verbatim>\<open>weight_map\<close> is \<^verbatim>\<open>None\<close> on a loader
  of a single file, and \<^verbatim>\<open>None.keys()\<close> raises \<^verbatim>\<open>AttributeError\<close>. The filter is
  evaluated once per name, so a missing \<^verbatim>\<open>target_modules\<close> raises \<^verbatim>\<open>KeyError\<close> only
  when there is a name.
\<close>

definition select_names :: "string dict option \<Rightarrow> peft_config \<Rightarrow> error + string list" where
  "select_names wm pc =
     (case wm of
        None \<Rightarrow> Inl (AttributeError ''keys'')
      | Some m \<Rightarrow>
          if m = [] then Inr []
          else (case pc of
                  None \<Rightarrow> Inl (KeyError ''target_modules'')
                | Some tm \<Rightarrow>
                    Inr (filter (\<lambda>name. list_ex (\<lambda>v. py_in v name) (py_list tm)) (map fst m))))"

text \<open>
  One round of the loop of lines 164 to 173, up to the matrix that is appended to \<open>v\<close>.
  The source reads each of the two tensors twice, once for the assertion and once for the
  difference. Assertions are taken as enabled (Python without \<^verbatim>\<open>-O\<close>).
\<close>

definition aligned_step ::
  "'t torch \<Rightarrow> 't env \<Rightarrow> SafetensorLoader \<Rightarrow> SafetensorLoader \<Rightarrow> string \<Rightarrow> string \<Rightarrow> string
     \<Rightarrow> error + 't" where
  "aligned_step T E sl_base sl_align devs name_base name_align =
     bind_err (get_tensor E sl_base name_base) (\<lambda>b1.
     bind_err (get_tensor E sl_align name_align) (\<lambda>a1.
       if torch_shape T b1 \<noteq> torch_shape T a1 then Inl AssertionError
       else
         bind_err (get_tensor E sl_base name_base) (\<lambda>b2.
         bind_err (get_tensor E sl_align name_align) (\<lambda>a2.
         bind_err (torch_to T devs (torch_sub T b2 a2)) (\<lambda>vec0.
           let vec = (if devs = ''cpu'' then torch_float32 T vec0 else vec0)
           in bind_err (torch_t T vec) (\<lambda>vt.
              bind_err (torch_mm T vec vt) (\<lambda>g.
                Inr (torch_detach_cpu T (torch_div_norm T g vec)))))))))"

fun aligned_loop ::
  "'t torch \<Rightarrow> 't env \<Rightarrow> SafetensorLoader \<Rightarrow> SafetensorLoader \<Rightarrow> string
     \<Rightarrow> (string \<times> string) list \<Rightarrow> 't list \<Rightarrow> error + 't list" where
  "aligned_loop T E sl_base sl_align devs [] v = Inr v"
| "aligned_loop T E sl_base sl_align devs ((name_base, name_align) # rest) v =
     (case aligned_step T E sl_base sl_align devs name_base name_align of
        Inl e \<Rightarrow> Inl e
      | Inr vec \<Rightarrow> aligned_loop T E sl_base sl_align devs rest (v @ [vec]))"

definition get_aligned_matrix ::
  "'t torch \<Rightarrow> 't env \<Rightarrow> string option \<Rightarrow> string option \<Rightarrow> string \<Rightarrow> peft_config
     \<Rightarrow> error + 't list" where
  "get_aligned_matrix T E base_path aligned_path devs pc =
     bind_err (SafetensorLoader_init E aligned_path) (\<lambda>sl_align.
     bind_err (SafetensorLoader_init E base_path) (\<lambda>sl_base.
     bind_err (select_names (weight_map sl_base) pc) (\<lambda>base.
     bind_err (select_names (weight_map sl_align) pc) (\<lambda>align.
       aligned_loop T E sl_base sl_align devs (zip base align) []))))"

subsection \<open>\<^verbatim>\<open>project_weights\<close> (lines 177 to 207)\<close>

text \<open>
  The part of one round of the loop that only reads: from \<open>A\<close> (line 186) to the rounded
  cosine (line 195). It reads the deep copy \<open>ori_peft_weights\<close>, the list \<open>v\<close> and the
  configuration, and returns \<open>W\<close>, the original \<open>B\<close> and the score.
\<close>

definition project_step ::
  "'t torch \<Rightarrow> SafeLoraConfig \<Rightarrow> 't dict \<Rightarrow> 't list \<Rightarrow> nat \<Rightarrow> string \<Rightarrow> string
     \<Rightarrow> error + ('t \<times> 't \<times> pyfloat)" where
  "project_step T configs ori_peft_weights v idx name_A name_B =
     bind_err (dict_get ori_peft_weights name_A) (\<lambda>A.
     bind_err (py_index v idx) (\<lambda>vi.
     bind_err (if devices configs \<noteq> ''cpu''
               then torch_to T (devices configs) (torch_bfloat16 T vi)
               else torch_to T ''cpu'' vi) (\<lambda>P.
     bind_err (dict_get ori_peft_weights name_B) (\<lambda>B.
     bind_err (torch_mm T P B) (\<lambda>W.
     bind_err (torch_mm T W A) (\<lambda>fW.
     bind_err (torch_mm T B A) (\<lambda>ori.
     bind_err (cosine_similarity T fW ori) (\<lambda>c.
       Inr (W, B, numpy_round5 T c)))))))))"

text \<open>
  The loop of lines 185 to 206 over the zipped names, with the variables it assigns as
  arguments: the dictionary \<open>peft_weights\<close> (written in place), \<open>idx\<close>, \<open>i\<close>, \<open>dis\<close>
  and \<open>cos_total\<close>. It returns the dictionary as the loop leaves it (also when a round
  raises) and the outcome: the error, or \<open>cos_total\<close>.
\<close>

fun project_loop ::
  "'t torch \<Rightarrow> SafeLoraConfig \<Rightarrow> 't dict \<Rightarrow> 't list \<Rightarrow> (string \<times> string) list
     \<Rightarrow> nat \<Rightarrow> nat \<Rightarrow> pyfloat list \<Rightarrow> pyfloat list \<Rightarrow> 't dict
     \<Rightarrow> 't dict \<times> (error + pyfloat list)" where
  "project_loop T configs ori v [] idx i dis cos_total peft_weights =
     (peft_weights, Inr cos_total)"
| "project_loop T configs ori v ((name_A, name_B) # rest) idx i dis cos_total peft_weights =
     (case project_step T configs ori v idx name_A name_B of
        Inl e \<Rightarrow> (peft_weights, Inl e)
      | Inr (W, B, c) \<Rightarrow>
          let replace = float_le c (threshold configs);
              i' = (if replace then i + 1 else i);
              peft_weights' = AList.update name_B (if replace then W else B) peft_weights
          in (case bind_err (dict_get peft_weights' name_B) (\<lambda>final. confidence T final W) of
                Inl e \<Rightarrow> (peft_weights', Inl e)
              | Inr dist_i \<Rightarrow>
                  project_loop T configs ori v rest (idx + 1) i' (dis @ [dist_i])
                    (cos_total @ [c]) peft_weights'))"

text \<open>
  The dictionary that \<^verbatim>\<open>project_weights\<close> receives is an object that its caller still
  holds, and the function writes into it. The model keeps mappings in a store, addressed by
  references: \<^verbatim>\<open>project_weights\<close> takes the reference and the store, and returns the
  reference it returns in the source (with \<open>cos_total\<close>) and the store as it leaves it.
  \<^verbatim>\<open>copy.deepcopy\<close> reads the mapping at the moment of the call.
\<close>

type_synonym ref = nat

type_synonym 't store = "ref \<Rightarrow> 't dict option"

text \<open>Lines 179 and 180: the keys that contain \<^verbatim>\<open>lora_A\<close>, and those that contain \<^verbatim>\<open>lora_B\<close>.\<close>

definition names_A :: "'t dict \<Rightarrow> string list" where
  "names_A peft_weights = filter (py_in ''lora_A'') (map fst peft_weights)"

definition names_B :: "'t dict \<Rightarrow> string list" where
  "names_B peft_weights = filter (py_in ''lora_B'') (map fst peft_weights)"

definition project_weights ::
  "'t torch \<Rightarrow> SafeLoraConfig \<Rightarrow> ref \<Rightarrow> 't list \<Rightarrow> 't store
     \<Rightarrow> (error + (ref \<times> pyfloat list)) \<times> 't store" where
  "project_weights T configs peft_weights v h =
     (case h peft_weights of
        None \<Rightarrow> (Inl (AttributeError ''keys''), h)
      | Some w \<Rightarrow>
          let ori_peft_weights = w;
              (w', outcome) =
                project_loop T configs ori_peft_weights v (zip (names_A w) (names_B w)) 0 0 [] [] w
          in (case outcome of
                Inl e \<Rightarrow> (Inl e, h(peft_weights \<mapsto> w'))
              | Inr cos_total \<Rightarrow> (Inr (peft_weights, cos_total), h(peft_weights \<mapsto> w'))))"

subsection \<open>\<^verbatim>\<open>apply_safelora\<close> (lines 210 to 249)\<close>

text \<open>
  Lines 231 to 237: the adapter's tensors, moved to the device and cast
  (\<^verbatim>\<open>float32\<close> on \<^verbatim>\<open>"cpu"\<close>, \<^verbatim>\<open>bfloat16\<close> otherwise), in the order of \<^verbatim>\<open>f.keys()\<close>.
\<close>

fun load_tensors :: "'t torch \<Rightarrow> string \<Rightarrow> 't dict \<Rightarrow> 't dict \<Rightarrow> error + 't dict" where
  "load_tensors T devs [] acc = Inr acc"
| "load_tensors T devs ((name, x) # rest) acc =
     (case torch_to T devs x of
        Inl e \<Rightarrow> Inl e
      | Inr y \<Rightarrow>
          load_tensors T devs rest
            (AList.update name (if devs = ''cpu'' then torch_float32 T y else torch_bfloat16 T y)
               acc))"

definition load_peft_weights :: "'t torch \<Rightarrow> 't env \<Rightarrow> string \<Rightarrow> string \<Rightarrow> error + 't dict" where
  "load_peft_weights T E devs peft_path =
     (case safetensors_files E (os_path_join peft_path ''adapter_model.safetensors'') of
        None \<Rightarrow> Inl OpenError
      | Some f \<Rightarrow> load_tensors T devs f [])"

text \<open>
  Lines 238 to 244. The result is the binding of the local variable \<^verbatim>\<open>final_wieghts\<close>
  when the branch ends (\<open>None\<close>: the name is unbound), the configuration (line 243 assigns
  \<^verbatim>\<open>configs.threshold\<close>) and the store. The \<^verbatim>\<open>threshold\<close> branch binds
  \<^verbatim>\<open>final_weights\<close>, another name. Both passes of the \<^verbatim>\<open>number\<close> branch receive the
  same object \<open>peft_weights\<close>.
\<close>

definition select_layers ::
  "'t torch \<Rightarrow> SafeLoraConfig \<Rightarrow> ref \<Rightarrow> 't list \<Rightarrow> 't store
     \<Rightarrow> (error + ref option) \<times> SafeLoraConfig \<times> 't store" where
  "select_layers T configs peft_weights v h =
     (if select_layers_type configs = ''threshold'' then
        (case project_weights T configs peft_weights v h of
           (Inl e, h1) \<Rightarrow> (Inl e, configs, h1)
         | (Inr (final_weights, _), h1) \<Rightarrow> (Inr None, configs, h1))
      else if select_layers_type configs = ''number'' then
        (case project_weights T configs peft_weights v h of
           (Inl e, h1) \<Rightarrow> (Inl e, configs, h1)
         | (Inr (_, cos_total), h1) \<Rightarrow>
             (case py_last (py_slice_to (numpy_sort cos_total) (num_proj_layers configs)) of
                Inl e \<Rightarrow> (Inl e, configs, h1)
              | Inr thrs \<Rightarrow>
                  let configs' = configs\<lparr>threshold := thrs\<rparr>
                  in (case project_weights T configs' peft_weights v h1 of
                        (Inl e, h2) \<Rightarrow> (Inl e, configs', h2)
                      | (Inr (final_wieghts, _), h2) \<Rightarrow> (Inr (Some final_wieghts), configs', h2))))
      else (Inr None, configs, h))"

text \<open>
  Lines 246 to 249: \<^verbatim>\<open>configs.saveWeights\<close> is read first, then \<^verbatim>\<open>final_wieghts\<close>
  (by \<^verbatim>\<open>save_file\<close> or by \<^verbatim>\<open>return\<close>). \<^verbatim>\<open>save_file\<close> replaces the content of the
  adapter's weight file.
\<close>

definition save_and_return ::
  "'t env \<Rightarrow> SafeLoraConfig \<Rightarrow> string \<Rightarrow> ref option \<Rightarrow> 't store
     \<Rightarrow> (error + 't dict) \<times> SafeLoraConfig \<times> 't env" where
  "save_and_return E configs peft_path final_wieghts h =
     (case saveWeights configs of
        None \<Rightarrow> (Inl (AttributeError ''saveWeights''), configs, E)
      | Some flag \<Rightarrow>
          (case final_wieghts of
             None \<Rightarrow> (Inl (UnboundLocalError ''final_wieghts''), configs, E)
           | Some r \<Rightarrow>
               (case h r of
                  None \<Rightarrow> (Inl TypeError, configs, E)
                | Some w \<Rightarrow>
                    (Inr w, configs,
                     if flag
                     then E\<lparr>safetensors_files :=
                            (safetensors_files E)
                              (os_path_join peft_path ''adapter_model.safetensors'' \<mapsto> w)\<rparr>
                     else E))))"

text \<open>
  The whole function. It returns the outcome (the error, or the returned mapping), the
  configuration object and the file system as the call leaves them. The mapping built at
  line 235 or 237 is a new object, at reference 0 of a store of its own.
\<close>

definition apply_safelora ::
  "'t torch \<Rightarrow> 't env \<Rightarrow> SafeLoraConfig \<Rightarrow> (error + 't dict) \<times> SafeLoraConfig \<times> 't env" where
  "apply_safelora T E configs =
     (case peft_model_path configs of
        None \<Rightarrow> (Inl TypeError, configs, E)
      | Some peft_path \<Rightarrow>
          (case adapter_configs E (os_path_join peft_path ''adapter_config.json'') of
             None \<Rightarrow> (Inl OpenError, configs, E)
           | Some peft_config \<Rightarrow>
               (case get_aligned_matrix T E (base_model_path configs)
                       (aligned_model_path configs) (devices configs) peft_config of
                  Inl e \<Rightarrow> (Inl e, configs, E)
                | Inr v \<Rightarrow>
                    (case load_peft_weights T E (devices configs) peft_path of
                       Inl e \<Rightarrow> (Inl e, configs, E)
                     | Inr w \<Rightarrow>
                         (case select_layers T configs 0 v (Map.empty(0 \<mapsto> w)) of
                            (Inl e, configs', h) \<Rightarrow> (Inl e, configs', E)
                          | (Inr final_wieghts, configs', h) \<Rightarrow>
                              save_and_return E configs' peft_path final_wieghts h)))))"

subsection \<open>An instance of the tensor library: matrices with exact arithmetic\<close>

text \<open>
  For the concrete runs below, tensors are matrices (lists of rows) of Python floats.
  Finite values are computed exactly; infinities and not-a-number follow IEEE 754. The runs
  use small integers, on which \<^verbatim>\<open>float32\<close> is exact too. A zero divisor is \<open>+0\<close>: the
  module only divides by norms and by sums that are at least 1.
\<close>

type_synonym tensor = "pyfloat list list"

fun fl_neg :: "pyfloat \<Rightarrow> pyfloat" where
  "fl_neg (Fin x) = Fin (- x)"
| "fl_neg PInf = NInf"
| "fl_neg NInf = PInf"
| "fl_neg NaN = NaN"

fun fl_add :: "pyfloat \<Rightarrow> pyfloat \<Rightarrow> pyfloat" where
  "fl_add NaN y = NaN"
| "fl_add x NaN = NaN"
| "fl_add (Fin x) (Fin y) = Fin (x + y)"
| "fl_add PInf NInf = NaN"
| "fl_add NInf PInf = NaN"
| "fl_add PInf y = PInf"
| "fl_add NInf y = NInf"
| "fl_add (Fin x) y = y"

definition fl_sub :: "pyfloat \<Rightarrow> pyfloat \<Rightarrow> pyfloat" where
  "fl_sub x y = fl_add x (fl_neg y)"

text \<open>The sign of a float that is not not-a-number, as \<open>-1\<close>, \<open>0\<close> or \<open>1\<close>.\<close>

fun fl_sign :: "pyfloat \<Rightarrow> int" where
  "fl_sign (Fin x) = (if x < 0 then - 1 else if x = 0 then 0 else 1)"
| "fl_sign PInf = 1"
| "fl_sign NInf = - 1"
| "fl_sign NaN = 0"

fun fl_mul :: "pyfloat \<Rightarrow> pyfloat \<Rightarrow> pyfloat" where
  "fl_mul NaN y = NaN"
| "fl_mul x NaN = NaN"
| "fl_mul (Fin x) (Fin y) = Fin (x * y)"
| "fl_mul x y =
     (if fl_sign x * fl_sign y = 0 then NaN else if fl_sign x * fl_sign y < 0 then NInf else PInf)"

fun fl_div :: "pyfloat \<Rightarrow> pyfloat \<Rightarrow> pyfloat" where
  "fl_div NaN y = NaN"
| "fl_div x NaN = NaN"
| "fl_div (Fin x) (Fin y) =
     (if y = 0 then (if x = 0 then NaN else if x < 0 then NInf else PInf) else Fin (x / y))"
| "fl_div (Fin x) y = Fin 0"
| "fl_div x (Fin y) = (if fl_sign x * (if y < 0 then - 1 else 1) < 0 then NInf else PInf)"
| "fl_div x y = NaN"

fun fl_sqrt :: "pyfloat \<Rightarrow> pyfloat" where
  "fl_sqrt (Fin x) = (if x < 0 then NaN else Fin (sqrt x))"
| "fl_sqrt PInf = PInf"
| "fl_sqrt x = NaN"

text \<open>\<^verbatim>\<open>clamp_min\<close>: the larger of the two; not-a-number stays.\<close>

fun fl_clamp_min :: "pyfloat \<Rightarrow> pyfloat \<Rightarrow> pyfloat" where
  "fl_clamp_min NaN y = NaN"
| "fl_clamp_min x y = (if float_le y x then x else y)"

definition fl_dot :: "pyfloat list \<Rightarrow> pyfloat list \<Rightarrow> pyfloat" where
  "fl_dot xs ys = foldl fl_add (Fin 0) (map2 fl_mul xs ys)"

definition fl_norm :: "tensor \<Rightarrow> pyfloat" where
  "fl_norm m = fl_sqrt (fl_dot (concat m) (concat m))"

definition ncols :: "tensor \<Rightarrow> nat" where
  "ncols m = (case m of [] \<Rightarrow> 0 | r # _ \<Rightarrow> length r)"

definition mat_shape :: "tensor \<Rightarrow> nat list" where
  "mat_shape m = [length m, ncols m]"

definition mat_sub :: "tensor \<Rightarrow> tensor \<Rightarrow> tensor" where
  "mat_sub a b = map2 (map2 fl_sub) a b"

definition mat_t :: "tensor \<Rightarrow> tensor" where
  "mat_t m = map (\<lambda>j. map (\<lambda>row. row ! j) m) [0..<ncols m]"

definition mat_mm :: "tensor \<Rightarrow> tensor \<Rightarrow> error + tensor" where
  "mat_mm a b =
     (if ncols a = length b then Inr (map (\<lambda>row. map (fl_dot row) (mat_t b)) a)
      else Inl TorchError)"

definition mat_div_norm :: "tensor \<Rightarrow> tensor \<Rightarrow> tensor" where
  "mat_div_norm g m = map (map (\<lambda>x. fl_div x (fl_norm m))) g"

text \<open>
  \<^verbatim>\<open>cosine_similarity\<close> of the two flattened tensors: their dot product over the product of
  their norms, the latter at least \<^verbatim>\<open>eps = 1e-8\<close>. It raises when the lengths differ.
\<close>

definition mat_cosine :: "tensor \<Rightarrow> tensor \<Rightarrow> error + pyfloat" where
  "mat_cosine x y =
     (if length (concat x) = length (concat y)
      then Inr (fl_div (fl_dot (concat x) (concat y))
                  (fl_clamp_min (fl_mul (fl_norm x) (fl_norm y)) (Fin (1 / 100000000))))
      else Inl TorchError)"

text \<open>\<^verbatim>\<open>numpy.round(c, 5)\<close>: to the nearest multiple of \<open>10\<^sup>-\<^sup>5\<close>, halves to the even one.\<close>

definition round_half_even :: "real \<Rightarrow> int" where
  "round_half_even x =
     (let f = \<lfloor>x\<rfloor>; d = x - of_int f
      in if d < 1 / 2 then f else if 1 / 2 < d then f + 1 else if even f then f else f + 1)"

fun round5 :: "pyfloat \<Rightarrow> pyfloat" where
  "round5 (Fin x) = Fin (of_int (round_half_even (x * 100000)) / 100000)"
| "round5 x = x"

definition mat_confidence :: "tensor \<Rightarrow> tensor \<Rightarrow> error + pyfloat" where
  "mat_confidence x y =
     (if length (concat x) = length (concat y)
      then Inr (fl_div (Fin 1) (fl_add (Fin 1) (fl_norm [map2 fl_sub (concat x) (concat y)])))
      else Inl TorchError)"

text \<open>Every device exists in this instance, and the casts keep the values.\<close>

definition exact :: "tensor torch" where
  "exact =
     \<lparr>torch_shape = mat_shape, torch_sub = mat_sub, torch_to = (\<lambda>d x. Inr x),
      torch_float32 = (\<lambda>x. x), torch_bfloat16 = (\<lambda>x. x), torch_t = (\<lambda>x. Inr (mat_t x)),
      torch_mm = mat_mm, torch_div_norm = mat_div_norm, torch_detach_cpu = (\<lambda>x. x),
      cosine_similarity = mat_cosine, numpy_round5 = round5, confidence = mat_confidence\<rparr>"

subsection \<open>Concrete data for the runs\<close>

text \<open>
  An adapter with two layers, each a pair of a \<^verbatim>\<open>lora_A\<close> factor (1 by 1) and a
  \<^verbatim>\<open>lora_B\<close> factor (2 by 1), and the alignment matrix that keeps the first coordinate.
  The cosine of \<open>(7, 24)\<close> and its projection \<open>(7, 0)\<close> is \<open>7/25 = 0.28\<close>; the cosine of
  \<open>(44, 117)\<close> and \<open>(44, 0)\<close> is \<open>44/125 = 0.352\<close>.
\<close>

definition first_axis :: tensor where
  "first_axis = [[Fin 1, Fin 0], [Fin 0, Fin 0]]"

definition adapter_weights :: "tensor dict" where
  "adapter_weights =
     [(''q_proj.lora_A.weight'', [[Fin 1]]), (''q_proj.lora_B.weight'', [[Fin 7], [Fin 24]]),
      (''v_proj.lora_A.weight'', [[Fin 1]]), (''v_proj.lora_B.weight'', [[Fin 44], [Fin 117]])]"

definition projected_weights :: "tensor dict" where
  "projected_weights =
     [(''q_proj.lora_A.weight'', [[Fin 1]]), (''q_proj.lora_B.weight'', [[Fin 7], [Fin 0]]),
      (''v_proj.lora_A.weight'', [[Fin 1]]), (''v_proj.lora_B.weight'', [[Fin 44], [Fin 0]])]"

text \<open>
  The configuration that \<^verbatim>\<open>SafeLoraConfig(base_model_path="base",
  aligned_model_path="aligned", peft_model_path="peft", select_layers_type="threshold",
  num_proj_layers=1, devices="cpu")\<close> builds (the threshold is the default 0.5,
  \<^verbatim>\<open>save_weights\<close> the default \<^verbatim>\<open>True\<close>).
\<close>

definition threshold_config :: SafeLoraConfig where
  "threshold_config =
     \<lparr>base_model_path = Some ''base'', aligned_model_path = Some ''aligned'',
      peft_model_path = Some ''peft'', select_layers_type = ''threshold'',
      threshold = Fin (1 / 2), num_proj_layers = 1, devices = ''cpu'', save_weights = True,
      saveWeights = None\<rparr>"

text \<open>
  A file system with the base model under \<^verbatim>\<open>base\<close> and the aligned model under
  \<^verbatim>\<open>aligned\<close>, each sharded (an index and one shard), and the adapter under \<^verbatim>\<open>peft\<close>.
  Base minus aligned is \<open>first_axis\<close> for both modules, and so is the alignment matrix
  \<open>(D \<cdot> D\<^sup>T) / \<parallel>D\<parallel>\<close>. Nothing is on the hub.
\<close>

definition zeros :: tensor where
  "zeros = [[Fin 0, Fin 0], [Fin 0, Fin 0]]"

definition sharded_env :: "tensor env" where
  "sharded_env =
     \<lparr>path_exists = (\<lambda>p. p \<in> set [''base'', ''aligned'', ''peft'']),
      snapshot_download = (\<lambda>p. False),
      checkpoint_shards =
        (\<lambda>d. if d = ''base'' then
                Some ([''base/model-1.safetensors''],
                      [(''q_proj.weight'', ''model-1.safetensors''),
                       (''v_proj.weight'', ''model-1.safetensors'')])
              else if d = ''aligned'' then
                Some ([''aligned/model-1.safetensors''],
                      [(''q_proj.weight'', ''model-1.safetensors''),
                       (''v_proj.weight'', ''model-1.safetensors'')])
              else None),
      safetensors_files =
        (\<lambda>p. if p = ''base/model-1.safetensors'' then
                Some [(''q_proj.weight'', first_axis), (''v_proj.weight'', first_axis)]
              else if p = ''aligned/model-1.safetensors'' then
                Some [(''q_proj.weight'', zeros), (''v_proj.weight'', zeros)]
              else if p = ''peft/adapter_model.safetensors'' then Some adapter_weights
              else None),
      adapter_configs =
        (\<lambda>p. if p = ''peft/adapter_config.json'' then Some (Some (ModList [''q_proj'', ''v_proj'']))
              else None)\<rparr>"

text \<open>The same models, each stored as the single file \<^verbatim>\<open>model.safetensors\<close>.\<close>

definition single_file_env :: "tensor env" where
  "single_file_env =
     sharded_env
       \<lparr>path_exists := (\<lambda>p. p \<in> set [''base'', ''base/model.safetensors'', ''aligned'',
                                     ''aligned/model.safetensors'', ''peft'']),
        safetensors_files :=
          (safetensors_files sharded_env)
            (''base/model.safetensors'' \<mapsto>
               [(''q_proj.weight'', first_axis), (''v_proj.weight'', first_axis)],
             ''aligned/model.safetensors'' \<mapsto>
               [(''q_proj.weight'', zeros), (''v_proj.weight'', zeros)])\<rparr>"


text \<open>The loaders that \<^verbatim>\<open>SafetensorLoader("base")\<close> and \<^verbatim>\<open>SafetensorLoader("aligned")\<close> build.\<close>

definition base_loader :: SafetensorLoader where
  "base_loader =
     \<lparr>model_path = ''base/model.safetensors'', is_sharded = True,
      weight_map = Some [(''q_proj.weight'', ''base/model-1.safetensors''),
                         (''v_proj.weight'', ''base/model-1.safetensors'')],
      base_model_prefix = None\<rparr>"

definition aligned_loader :: SafetensorLoader where
  "aligned_loader =
     \<lparr>model_path = ''aligned/model.safetensors'', is_sharded = True,
      weight_map = Some [(''q_proj.weight'', ''aligned/model-1.safetensors''),
                         (''v_proj.weight'', ''aligned/model-1.safetensors'')],
      base_model_prefix = None\<rparr>"

text \<open>The same configuration with \<^verbatim>\<open>select_layers_type="number"\<close>: one layer is asked for.\<close>

definition number_config :: SafeLoraConfig where
  "number_config = threshold_config\<lparr>select_layers_type := ''number''\<rparr>"

text \<open>The loader that \<^verbatim>\<open>SafetensorLoader("base")\<close> builds when the store is a single file.\<close>

definition single_base_loader :: SafetensorLoader where
  "single_base_loader =
     \<lparr>model_path = ''base/model.safetensors'', is_sharded = False, weight_map = None,
      base_model_prefix = None\<rparr>"

text \<open>
  The \<^verbatim>\<open>number\<close> configuration with the threshold set to 0, below both scores, and the
  adapter with only the first layer projected.
\<close>

definition low_threshold_config :: SafeLoraConfig where
  "low_threshold_config = number_config\<lparr>threshold := Fin 0\<rparr>"

definition first_layer_projected :: "tensor dict" where
  "first_layer_projected =
     [(''q_proj.lora_A.weight'', [[Fin 1]]), (''q_proj.lora_B.weight'', [[Fin 7], [Fin 0]]),
      (''v_proj.lora_A.weight'', [[Fin 1]]), (''v_proj.lora_B.weight'', [[Fin 44], [Fin 117]])]"

section \<open>Theorems\<close>

lemma bind_err_simps [simp]:
  "bind_err (Inl e) f = Inl e"
  "bind_err (Inr x) f = f x"
  by (simp_all add: bind_err_def)

lemma bind_err_eq_Inr: "bind_err m f = Inr y \<longleftrightarrow> (\<exists>x. m = Inr x \<and> f x = Inr y)"
  by (cases m) simp_all

subsection \<open>Constructing a configuration\<close>

text \<open>
  Claim C8, as amended. Constructing a \<^verbatim>\<open>SafeLoraConfig\<close> raises \<^verbatim>\<open>ValueError\<close> if and
  only if one of \<^verbatim>\<open>base_model_path\<close>, \<^verbatim>\<open>aligned_model_path\<close>, \<^verbatim>\<open>peft_model_path\<close> is
  \<^verbatim>\<open>None\<close>. The three checks of \<^verbatim>\<open>__post_init__\<close> are \<^verbatim>\<open>is None\<close> tests: a path
  that is the empty string passes them.
\<close>

theorem config_construction_fails_iff_path_is_None:
  "(\<exists>msg. SafeLoraConfig_new base aligned peft slt thr n dev sw = Inl (ValueError msg))
     \<longleftrightarrow> (base = None \<or> aligned = None \<or> peft = None)"
  by (auto simp: SafeLoraConfig_new_def post_init_def)

theorem config_construction_fails_iff_path_is_None_witness:
  "(\<exists>msg. SafeLoraConfig_new None (Some ''aligned'') (Some ''peft'') ''number'' (Fin (1 / 2)) 10
             ''cuda'' True = Inl (ValueError msg))
     \<longleftrightarrow> ((None :: string option) = None \<or> Some ''aligned'' = None \<or> Some ''peft'' = None)"
  by (rule config_construction_fails_iff_path_is_None)

text \<open>
  Claim C8 as stated fails: with the empty string as base model path (and as aligned model
  path), construction succeeds and returns the configuration.
\<close>

theorem config_construction_accepts_empty_path:
  "SafeLoraConfig_new (Some []) (Some []) (Some ''peft'') ''number'' (Fin (1 / 2)) 10
     ''cuda'' True
   = Inr \<lparr>base_model_path = Some [], aligned_model_path = Some [],
          peft_model_path = Some ''peft'', select_layers_type = ''number'',
          threshold = Fin (1 / 2), num_proj_layers = 10, devices = ''cuda'', save_weights = True,
          saveWeights = None\<rparr>"
  by (simp add: SafeLoraConfig_new_def post_init_def)

subsection \<open>The loop of \<^verbatim>\<open>project_weights\<close>\<close>

lemma dict_get_eq_Inr: "dict_get d k = Inr v \<longleftrightarrow> map_of d k = Some v"
  by (simp add: dict_get_def split: option.splits)

lemma py_index_eq_Inr: "py_index xs i = Inr x \<longleftrightarrow> i < length xs \<and> x = xs ! i"
  by (auto simp: py_index_def)

lemma project_loop_keys:
  "snd ` set pairs \<subseteq> fst ` set w \<Longrightarrow>
   map fst (fst (project_loop T c ori v pairs idx i dis cs w)) = map fst w"
proof (induction pairs arbitrary: idx i dis cs w)
  case Nil
  then show ?case by simp
next
  case (Cons p pairs)
  obtain a b where p: "p = (a, b)" by (cases p)
  from Cons.prems p have b: "b \<in> fst ` set w" and rest: "snd ` set pairs \<subseteq> fst ` set w"
    by auto
  have keys: "map fst (AList.update b x w) = map fst w" for x
    using b by (simp add: update_keys)
  have rest': "snd ` set pairs \<subseteq> fst ` set (AList.update b x w)" for x
    using rest keys[of x] by (metis set_map)
  show ?case
    using Cons.IH[OF rest'] keys
    by (simp add: p Let_def split: sum.splits prod.splits)
qed

lemma project_loop_frame:
  "k \<notin> snd ` set pairs \<Longrightarrow>
   map_of (fst (project_loop T c ori v pairs idx i dis cs w)) k = map_of w k"
proof (induction pairs arbitrary: idx i dis cs w)
  case Nil
  then show ?case by simp
next
  case (Cons p pairs)
  obtain a b where p: "p = (a, b)" by (cases p)
  from Cons.prems p have kb: "k \<noteq> b" and rest: "k \<notin> snd ` set pairs" by auto
  show ?case
    using Cons.IH[OF rest] kb
    by (simp add: p Let_def update_conv' split: sum.splits prod.splits)
qed

lemma project_loop_scores:
  "project_loop T c ori v pairs idx i dis cs w = (w', Inr cs') \<Longrightarrow>
   \<exists>ds. cs' = cs @ ds \<and> length ds = length pairs"
proof (induction pairs arbitrary: idx i dis cs w)
  case Nil
  then show ?case by simp
next
  case (Cons p pairs)
  obtain a b where p: "p = (a, b)" by (cases p)
  from Cons.prems p obtain W B s d where
    step: "project_step T c ori v idx a b = Inr (W, B, s)" and
    rest: "project_loop T c ori v pairs (idx + 1)
             (if float_le s (threshold c) then i + 1 else i) (dis @ [d]) (cs @ [s])
             (AList.update b (if float_le s (threshold c) then W else B) w) = (w', Inr cs')"
    by (auto simp: Let_def split: sum.splits prod.splits)
  from Cons.IH[OF rest] show ?case by auto
qed

lemma project_loop_layer:
  assumes "project_loop T c ori v pairs idx i dis cs w = (w', Inr cs')"
    and "j < length pairs" and "distinct (map snd pairs)"
  shows "\<exists>W B s. project_step T c ori v (idx + j) (fst (pairs ! j)) (snd (pairs ! j)) = Inr (W, B, s)
           \<and> cs' ! (length cs + j) = s
           \<and> map_of w' (snd (pairs ! j)) = Some (if float_le s (threshold c) then W else B)"
  using assms
proof (induction pairs arbitrary: idx i dis cs w j)
  case Nil
  then show ?case by simp
next
  case (Cons p pairs)
  obtain a b where p: "p = (a, b)" by (cases p)
  from Cons.prems(1) p obtain W B s d where
    step: "project_step T c ori v idx a b = Inr (W, B, s)" and
    rest: "project_loop T c ori v pairs (idx + 1)
             (if float_le s (threshold c) then i + 1 else i) (dis @ [d]) (cs @ [s])
             (AList.update b (if float_le s (threshold c) then W else B) w) = (w', Inr cs')"
    by (auto simp: Let_def split: sum.splits prod.splits)
  from Cons.prems(3) p have nb: "b \<notin> snd ` set pairs" and dist: "distinct (map snd pairs)"
    by auto
  show ?case
  proof (cases j)
    case 0
    from project_loop_scores[OF rest] obtain ds where "cs' = (cs @ [s]) @ ds" by blast
    then have score: "cs' ! (length cs + 0) = s" by (simp add: nth_append)
    from project_loop_frame[OF nb, of T c ori v "idx + 1" _ _ _ _] rest
    have "map_of w' b = map_of (AList.update b (if float_le s (threshold c) then W else B) w) b"
      by (metis fst_conv)
    then have "map_of w' b = Some (if float_le s (threshold c) then W else B)"
      by (simp add: update_conv')
    with step score show ?thesis by (simp add: 0 p)
  next
    case (Suc j')
    with Cons.prems(2) have "j' < length pairs" by simp
    from Cons.IH[OF rest this dist] show ?thesis by (simp add: Suc)
  qed
qed

lemma project_step_eq_Inr:
  "project_step T c ori v idx name_A name_B = Inr (W, B, s) \<longleftrightarrow>
   (\<exists>A P fW ori_d c0.
      map_of ori name_A = Some A \<and> idx < length v \<and>
      (if devices c \<noteq> ''cpu'' then torch_to T (devices c) (torch_bfloat16 T (v ! idx))
       else torch_to T ''cpu'' (v ! idx)) = Inr P \<and>
      map_of ori name_B = Some B \<and> torch_mm T P B = Inr W \<and> torch_mm T W A = Inr fW \<and>
      torch_mm T B A = Inr ori_d \<and> cosine_similarity T fW ori_d = Inr c0 \<and>
      s = numpy_round5 T c0)"
  unfolding project_step_def bind_err_eq_Inr dict_get_eq_Inr py_index_eq_Inr
  by auto

lemma project_weights_success:
  assumes "project_weights T c r v h = (Inr (r', cos_total), h')"
  shows "\<exists>w w'. h r = Some w \<and> r' = r \<and> h' = h(r \<mapsto> w') \<and>
           project_loop T c w v (zip (names_A w) (names_B w)) 0 0 [] [] w = (w', Inr cos_total)"
  using assms
  by (auto simp: project_weights_def Let_def split: option.splits prod.splits sum.splits)

lemma zip_names_B_subset: "snd ` set (zip (names_A w) (names_B w)) \<subseteq> fst ` set w"
proof
  fix k assume "k \<in> snd ` set (zip (names_A w) (names_B w))"
  then obtain a where "(a, k) \<in> set (zip (names_A w) (names_B w))" by force
  then have "k \<in> set (names_B w)" by (rule set_zip_rightD)
  then show "k \<in> fst ` set w" by (auto simp: names_B_def)
qed

lemma zip_names_B_lora: "k \<in> snd ` set (zip (names_A w) (names_B w)) \<Longrightarrow> py_in ''lora_B'' k"
proof -
  assume "k \<in> snd ` set (zip (names_A w) (names_B w))"
  then obtain a where "(a, k) \<in> set (zip (names_A w) (names_B w))" by force
  then have "k \<in> set (names_B w)" by (rule set_zip_rightD)
  then show ?thesis by (simp add: names_B_def)
qed

lemma zip_names_B_distinct:
  "distinct (map fst w) \<Longrightarrow> distinct (map snd (zip (names_A w) (names_B w)))"
  by (simp add: map_snd_zip_take names_B_def)

subsection \<open>Two runs of \<^verbatim>\<open>project_weights\<close> on the concrete adapter\<close>

lemma sqrt_vals: "sqrt 49 = 7" "sqrt 625 = 25" "sqrt 1936 = 44" "sqrt 15625 = 125"
  by (rule real_sqrt_unique; simp)+

lemmas exact_simps = exact_def mat_mm_def mat_cosine_def mat_confidence_def mat_t_def ncols_def
  fl_dot_def fl_norm_def fl_sub_def mat_sub_def mat_shape_def mat_div_norm_def
  round_half_even_def sqrt_vals

lemma names_adapter:
  "names_A adapter_weights = [''q_proj.lora_A.weight'', ''v_proj.lora_A.weight'']"
  "names_B adapter_weights = [''q_proj.lora_B.weight'', ''v_proj.lora_B.weight'']"
  by (simp_all add: names_A_def names_B_def adapter_weights_def)

text \<open>
  With threshold 0.5 both scores, 0.28 and 0.352, are below the threshold: both
  \<^verbatim>\<open>lora_B\<close> factors are replaced by their projections.
\<close>

lemma first_pass:
  "project_weights exact threshold_config 0 [first_axis, first_axis] [0 \<mapsto> adapter_weights]
     = (Inr (0, [Fin (7 / 25), Fin (44 / 125)]), [0 \<mapsto> projected_weights])"
  by (simp add: project_weights_def names_A_def names_B_def project_step_def dict_get_def
      py_index_def Let_def adapter_weights_def projected_weights_def threshold_config_def
      first_axis_def exact_simps)


subsection \<open>Selection by threshold\<close>

text \<open>
  Claim C1. Let \<open>w\<close> be the mapping that \<^verbatim>\<open>project_weights\<close> receives (a dictionary: its
  keys are distinct) and let the call return. For the \<open>i\<close>-th pair \<open>(name_A, name_B)\<close> of
  the zipped \<^verbatim>\<open>lora_A\<close> and \<^verbatim>\<open>lora_B\<close> names, with \<open>A\<close> and \<open>B\<close> the tensors stored
  under them, \<open>P\<close> the \<open>i\<close>-th alignment matrix moved to the device, \<open>W = P \<cdot> B\<close> and \<open>c\<close>
  the cosine of \<open>W \<cdot> A\<close> and \<open>B \<cdot> A\<close>: the \<open>i\<close>-th returned score is \<open>c\<close> rounded to 5
  decimals, and the returned mapping holds under \<open>name_B\<close> the projection \<open>W\<close> if the
  rounded score is \<open>\<le>\<close> the configured threshold (equality included), and the original
  \<open>B\<close> otherwise.
\<close>

theorem project_weights_replaces_iff_score_le_threshold:
  assumes "h r = Some w" and "distinct (map fst w)"
    and "project_weights T configs r v h = (Inr (r', cos_total), h')"
    and "i < length (zip (names_A w) (names_B w))"
    and "zip (names_A w) (names_B w) ! i = (name_A, name_B)"
  shows "\<exists>A B P W fW ori c w'.
      map_of w name_A = Some A \<and> map_of w name_B = Some B \<and> i < length v \<and>
      (if devices configs \<noteq> ''cpu''
       then torch_to T (devices configs) (torch_bfloat16 T (v ! i))
       else torch_to T ''cpu'' (v ! i)) = Inr P \<and>
      torch_mm T P B = Inr W \<and> torch_mm T W A = Inr fW \<and> torch_mm T B A = Inr ori \<and>
      cosine_similarity T fW ori = Inr c \<and>
      cos_total ! i = numpy_round5 T c \<and>
      h' r = Some w' \<and>
      map_of w' name_B =
        Some (if float_le (numpy_round5 T c) (threshold configs) then W else B)"
proof -
  from project_weights_success[OF assms(3)] assms(1) obtain w' where
    h': "h' = h(r \<mapsto> w')" and
    loop: "project_loop T configs w v (zip (names_A w) (names_B w)) 0 0 [] [] w
             = (w', Inr cos_total)"
    by auto
  from project_loop_layer[OF loop assms(4) zip_names_B_distinct[OF assms(2)]] assms(5)
  obtain W B s where
    step: "project_step T configs w v i name_A name_B = Inr (W, B, s)" and
    score: "cos_total ! i = s" and
    final: "map_of w' name_B = Some (if float_le s (threshold configs) then W else B)"
    by auto
  from step[unfolded project_step_eq_Inr] obtain A P fW ori c0 where
    "map_of w name_A = Some A" "i < length v"
    "(if devices configs \<noteq> ''cpu''
      then torch_to T (devices configs) (torch_bfloat16 T (v ! i))
      else torch_to T ''cpu'' (v ! i)) = Inr P"
    "map_of w name_B = Some B" "torch_mm T P B = Inr W" "torch_mm T W A = Inr fW"
    "torch_mm T B A = Inr ori" "cosine_similarity T fW ori = Inr c0" "s = numpy_round5 T c0"
    by blast
  with score final h' show ?thesis by auto
qed

theorem project_weights_replaces_iff_score_le_threshold_witness:
  "([0 \<mapsto> adapter_weights] :: tensor store) 0 = Some adapter_weights
   \<and> distinct (map fst adapter_weights)
   \<and> project_weights exact threshold_config 0 [first_axis, first_axis] [0 \<mapsto> adapter_weights]
       = (Inr (0, [Fin (7 / 25), Fin (44 / 125)]), [0 \<mapsto> projected_weights])
   \<and> 1 < length (zip (names_A adapter_weights) (names_B adapter_weights))
   \<and> zip (names_A adapter_weights) (names_B adapter_weights) ! 1
       = (''v_proj.lora_A.weight'', ''v_proj.lora_B.weight'')
   \<and> (\<exists>A B P W fW ori c w'.
        map_of adapter_weights ''v_proj.lora_A.weight'' = Some A
        \<and> map_of adapter_weights ''v_proj.lora_B.weight'' = Some B
        \<and> 1 < length [first_axis, first_axis]
        \<and> (if devices threshold_config \<noteq> ''cpu''
            then torch_to exact (devices threshold_config)
                   (torch_bfloat16 exact ([first_axis, first_axis] ! 1))
            else torch_to exact ''cpu'' ([first_axis, first_axis] ! 1)) = Inr P
        \<and> torch_mm exact P B = Inr W \<and> torch_mm exact W A = Inr fW
        \<and> torch_mm exact B A = Inr ori \<and> cosine_similarity exact fW ori = Inr c
        \<and> [Fin (7 / 25), Fin (44 / 125)] ! 1 = numpy_round5 exact c
        \<and> ([0 \<mapsto> projected_weights] :: tensor store) 0 = Some w'
        \<and> map_of w' ''v_proj.lora_B.weight''
            = Some (if float_le (numpy_round5 exact c) (threshold threshold_config)
                    then W else B))"
proof -
  have 1: "([0 \<mapsto> adapter_weights] :: tensor store) 0 = Some adapter_weights" by simp
  have 2: "distinct (map fst adapter_weights)" by (simp add: adapter_weights_def)
  have 4: "1 < length (zip (names_A adapter_weights) (names_B adapter_weights))"
    by (simp add: names_adapter)
  have 5: "zip (names_A adapter_weights) (names_B adapter_weights) ! 1
             = (''v_proj.lora_A.weight'', ''v_proj.lora_B.weight'')"
    by (simp add: names_adapter)
  note 6 = project_weights_replaces_iff_score_le_threshold[OF 1 2 first_pass 4 5]
  show ?thesis
    by (rule conjI[OF 1 conjI[OF 2 conjI[OF first_pass conjI[OF 4 conjI[OF 5 6]]]]])
qed

subsection \<open>Keys and frame\<close>

text \<open>
  Claim C4. When \<^verbatim>\<open>project_weights\<close> returns, the mapping it returns has the keys of the
  mapping it received, in the same order: as sets and as lists the keys are equal, none
  added and none removed.
\<close>

theorem project_weights_keeps_keys:
  assumes "project_weights T configs r v h = (Inr (r', cos_total), h')"
  shows "\<exists>w w'. h r = Some w \<and> h' r' = Some w' \<and> map fst w' = map fst w \<and>
           set (map fst w') = set (map fst w)"
proof -
  from project_weights_success[OF assms] obtain w w' where
    w: "h r = Some w" and r': "r' = r" and h': "h' = h(r \<mapsto> w')" and
    loop: "project_loop T configs w v (zip (names_A w) (names_B w)) 0 0 [] [] w
             = (w', Inr cos_total)"
    by blast
  from project_loop_keys[OF zip_names_B_subset, of T configs w v w 0 0 "[]" "[]"] loop
  have keys: "map fst w' = map fst w" by simp
  then have "set (map fst w') = set (map fst w)" by (rule arg_cong)
  with keys w r' h' show ?thesis by (simp del: set_map)
qed

theorem project_weights_keeps_keys_witness:
  "project_weights exact threshold_config 0 [first_axis, first_axis] [0 \<mapsto> adapter_weights]
       = (Inr (0, [Fin (7 / 25), Fin (44 / 125)]), [0 \<mapsto> projected_weights])
   \<and> (\<exists>w w'. ([0 \<mapsto> adapter_weights] :: tensor store) 0 = Some w
         \<and> ([0 \<mapsto> projected_weights] :: tensor store) 0 = Some w'
         \<and> map fst w' = map fst w \<and> set (map fst w') = set (map fst w))"
  using first_pass project_weights_keeps_keys[OF first_pass] by (intro conjI)

text \<open>
  Claim C9. When \<^verbatim>\<open>project_weights\<close> returns, the reference it returns is the reference
  it was passed, and the store holds the updated mapping under it (the mapping object is
  written in place); under every key that does not contain \<^verbatim>\<open>lora_B\<close>, hence under
  every \<^verbatim>\<open>lora_A\<close> key that is not also a \<^verbatim>\<open>lora_B\<close> key, the returned mapping holds
  what the received mapping held; and no other object of the store changes.
\<close>

theorem project_weights_in_place_only_lora_B:
  assumes "project_weights T configs r v h = (Inr (r', cos_total), h')"
  shows "r' = r \<and>
         (\<exists>w w'. h r = Some w \<and> h' r = Some w' \<and>
            (\<forall>k. \<not> py_in ''lora_B'' k \<longrightarrow> map_of w' k = map_of w k)) \<and>
         (\<forall>q. q \<noteq> r \<longrightarrow> h' q = h q)"
proof -
  from project_weights_success[OF assms] obtain w w' where
    w: "h r = Some w" and r': "r' = r" and h': "h' = h(r \<mapsto> w')" and
    loop: "project_loop T configs w v (zip (names_A w) (names_B w)) 0 0 [] [] w
             = (w', Inr cos_total)"
    by blast
  have "map_of w' k = map_of w k" if "\<not> py_in ''lora_B'' k" for k
  proof -
    from that zip_names_B_lora have "k \<notin> snd ` set (zip (names_A w) (names_B w))" by blast
    from project_loop_frame[OF this, of T configs w v 0 0 "[]" "[]" w] loop
    show ?thesis by simp
  qed
  with w r' h' show ?thesis by simp
qed

theorem project_weights_in_place_only_lora_B_witness:
  "project_weights exact threshold_config 0 [first_axis, first_axis] [0 \<mapsto> adapter_weights]
       = (Inr (0, [Fin (7 / 25), Fin (44 / 125)]), [0 \<mapsto> projected_weights])
   \<and> (\<exists>w w'. ([0 \<mapsto> adapter_weights] :: tensor store) 0 = Some w
         \<and> ([0 \<mapsto> projected_weights] :: tensor store) 0 = Some w'
         \<and> \<not> py_in ''lora_B'' ''q_proj.lora_A.weight''
         \<and> map_of w' ''q_proj.lora_A.weight'' = map_of w ''q_proj.lora_A.weight'')
   \<and> ([0 \<mapsto> projected_weights] :: tensor store) 7
       = ([0 \<mapsto> adapter_weights] :: tensor store) 7"
proof -
  have no_B: "\<not> py_in ''lora_B'' ''q_proj.lora_A.weight''" by simp
  from project_weights_in_place_only_lora_B[OF first_pass] obtain w w' where
    "([0 \<mapsto> adapter_weights] :: tensor store) 0 = Some w"
    "([0 \<mapsto> projected_weights] :: tensor store) 0 = Some w'"
    "\<forall>k. \<not> py_in ''lora_B'' k \<longrightarrow> map_of w' k = map_of w k"
    "\<forall>q. q \<noteq> 0 \<longrightarrow>
       ([0 \<mapsto> projected_weights] :: tensor store) q = ([0 \<mapsto> adapter_weights] :: tensor store) q"
    by blast
  with no_B first_pass show ?thesis by simp
qed

subsection \<open>Calling \<^verbatim>\<open>project_weights\<close> twice\<close>




subsection \<open>Loaders and alignment matrices on the concrete file systems\<close>

lemmas path_simps = endswith_def os_path_join_def rpartition_head_def rpartition_tail_def

lemma init_sharded:
  "SafetensorLoader_init sharded_env (Some ''base'') = Inr base_loader"
  "SafetensorLoader_init sharded_env (Some ''aligned'') = Inr aligned_loader"
  by (simp_all add: SafetensorLoader_init_def sharded_env_def base_loader_def aligned_loader_def
      path_simps dict_get_def Let_def)


lemma init_single:
  "SafetensorLoader_init single_file_env (Some ''base'')
     = Inr \<lparr>model_path = ''base/model.safetensors'', is_sharded = False, weight_map = None,
            base_model_prefix = None\<rparr>"
  "SafetensorLoader_init single_file_env (Some ''aligned'')
     = Inr \<lparr>model_path = ''aligned/model.safetensors'', is_sharded = False, weight_map = None,
            base_model_prefix = None\<rparr>"
  by (simp_all add: SafetensorLoader_init_def single_file_env_def sharded_env_def
      path_simps dict_get_def Let_def)

lemma aligned_sharded:
  "get_aligned_matrix exact sharded_env (Some ''base'') (Some ''aligned'') ''cpu''
     (Some (ModList [''q_proj'', ''v_proj''])) = Inr [first_axis, first_axis]"
  unfolding get_aligned_matrix_def init_sharded bind_err_simps
  by (simp add: select_names_def base_loader_def
      aligned_loader_def aligned_step_def get_tensor_def dict_get_def file_get_tensor_def
      sharded_env_def first_axis_def zeros_def exact_simps)

subsection \<open>Single-file stores\<close>

text \<open>
  What \<^verbatim>\<open>__init__\<close> leaves in a loader: \<^verbatim>\<open>weight_map\<close> is set exactly when the store is
  sharded, and \<^verbatim>\<open>base_model_prefix\<close> is never set.
\<close>

lemma init_result:
  assumes "SafetensorLoader_init E p = Inr sl"
  shows "(is_sharded sl \<longleftrightarrow> weight_map sl \<noteq> None) \<and> base_model_prefix sl = None"
  using assms
  by (auto simp: SafetensorLoader_init_def Let_def
      split: option.splits if_splits prod.splits sum.splits)

text \<open>
  With both loaders constructed and one of the stores a single file, the error is the
  \<^verbatim>\<open>AttributeError\<close> of \<^verbatim>\<open>None.keys()\<close>, unless the base store is sharded with a
  non-empty index and the adapter configuration has no \<^verbatim>\<open>target_modules\<close>, in which case
  the \<^verbatim>\<open>KeyError\<close> of line 159 comes first.
\<close>

lemma get_aligned_matrix_single_file_error:
  assumes "SafetensorLoader_init E aligned_path = Inr sl_align"
    and "SafetensorLoader_init E base_path = Inr sl_base"
    and "\<not> is_sharded sl_base \<or> \<not> is_sharded sl_align"
  shows "get_aligned_matrix T E base_path aligned_path devs pc
           = Inl (if is_sharded sl_base \<and> weight_map sl_base \<noteq> Some [] \<and> pc = None
                  then KeyError ''target_modules'' else AttributeError ''keys'')"
proof (cases "is_sharded sl_base")
  case False
  with init_result[OF assms(2)] have "weight_map sl_base = None" by simp
  with False assms(1,2) show ?thesis
    by (simp add: get_aligned_matrix_def select_names_def)
next
  case True
  with assms(3) have "\<not> is_sharded sl_align" by simp
  with init_result[OF assms(1)] have a: "weight_map sl_align = None" by simp
  from True init_result[OF assms(2)] obtain m where m: "weight_map sl_base = Some m" by auto
  from True a m assms(1,2) show ?thesis
    by (simp add: get_aligned_matrix_def select_names_def split: option.splits)
qed

text \<open>
  Claim C10. If the base store or the aligned store is one that \<^verbatim>\<open>SafetensorLoader\<close>
  accepts as a single file (the constructor returns a loader whose \<^verbatim>\<open>is_sharded\<close> is
  false, and whose \<^verbatim>\<open>weight_map\<close> is therefore \<^verbatim>\<open>None\<close>), then \<^verbatim>\<open>get_aligned_matrix\<close>
  raises and returns no alignment matrices, whatever the other store, the target modules and
  the tensors are.
\<close>

theorem get_aligned_matrix_fails_on_single_file_store:
  assumes "SafetensorLoader_init E store = Inr sl" and "\<not> is_sharded sl"
    and "store = base_path \<or> store = aligned_path"
  shows "\<exists>e. get_aligned_matrix T E base_path aligned_path devs pc = Inl e"
proof (cases "SafetensorLoader_init E aligned_path")
  case (Inl e)
  then show ?thesis by (simp add: get_aligned_matrix_def)
next
  case aligned: (Inr sl_align)
  show ?thesis
  proof (cases "SafetensorLoader_init E base_path")
    case (Inl e)
    with aligned show ?thesis by (simp add: get_aligned_matrix_def)
  next
    case base: (Inr sl_base)
    from assms aligned base have "\<not> is_sharded sl_base \<or> \<not> is_sharded sl_align" by auto
    from get_aligned_matrix_single_file_error[OF aligned base this] show ?thesis by blast
  qed
qed

text \<open>
  The loader accepts the single-file layout: on the file system with a
  \<^verbatim>\<open>model.safetensors\<close> in each model directory the constructor returns, and the
  alignment computation raises \<^verbatim>\<open>AttributeError\<close>.
\<close>

theorem get_aligned_matrix_fails_on_single_file_store_witness:
  "SafetensorLoader_init single_file_env (Some ''base'') = Inr single_base_loader
   \<and> \<not> is_sharded single_base_loader
   \<and> (Some ''base'' = Some ''base'' \<or> Some ''base'' = Some ''aligned'')
   \<and> (\<exists>e. get_aligned_matrix exact single_file_env (Some ''base'') (Some ''aligned'') ''cpu''
              (Some (ModList [''q_proj'', ''v_proj''])) = Inl e)
   \<and> get_aligned_matrix exact single_file_env (Some ''base'') (Some ''aligned'') ''cpu''
        (Some (ModList [''q_proj'', ''v_proj''])) = Inl (AttributeError ''keys'')"
proof -
  have 1: "SafetensorLoader_init single_file_env (Some ''base'') = Inr single_base_loader"
    by (simp add: init_single single_base_loader_def)
  have 2: "\<not> is_sharded single_base_loader" by (simp add: single_base_loader_def)
  have 3: "Some ''base'' = Some ''base'' \<or> Some ''base'' = Some ''aligned''" by simp
  note 4 = get_aligned_matrix_fails_on_single_file_store[OF 1 2 3, of exact "''cpu''"
      "Some (ModList [''q_proj'', ''v_proj''])"]
  have 5: "get_aligned_matrix exact single_file_env (Some ''base'') (Some ''aligned'') ''cpu''
             (Some (ModList [''q_proj'', ''v_proj''])) = Inl (AttributeError ''keys'')"
    using get_aligned_matrix_single_file_error[OF init_single(2) init_single(1),
        of exact "''cpu''" "Some (ModList [''q_proj'', ''v_proj''])"]
    by simp
  show ?thesis by (rule conjI[OF 1 conjI[OF 2 conjI[OF 3 conjI[OF 4 5]]]])
qed

subsection \<open>Shape mismatch\<close>







subsection \<open>A tensor name that the file does not have\<close>

text \<open>
  Claim C7 does not hold of the code. On the loader that \<^verbatim>\<open>SafetensorLoader("base")\<close>
  builds for a single-file store, \<^verbatim>\<open>get_tensor("q_proj.weight")\<close> returns the tensor, and
  \<^verbatim>\<open>get_tensor("model.q_proj.weight")\<close>, a name the file does not have, raises
  \<^verbatim>\<open>AttributeError\<close>: the handler of the \<^verbatim>\<open>SafetensorError\<close> reads
  \<^verbatim>\<open>self.base_model_prefix\<close>, which \<^verbatim>\<open>__init__\<close> never assigns. No prefix is stripped,
  nothing is retried, and the error that reaches the caller is not the tensor-not-found error.
\<close>

theorem get_tensor_miss_raises_AttributeError:
  "SafetensorLoader_init single_file_env (Some ''base'') = Inr single_base_loader
   \<and> get_tensor single_file_env single_base_loader ''q_proj.weight'' = Inr first_axis
   \<and> get_tensor single_file_env single_base_loader ''model.q_proj.weight''
       = Inl (AttributeError ''base_model_prefix'')"
proof (intro conjI)
  show "SafetensorLoader_init single_file_env (Some ''base'') = Inr single_base_loader"
    by (simp add: init_single single_base_loader_def)
  show "get_tensor single_file_env single_base_loader ''q_proj.weight'' = Inr first_axis"
    by (simp add: single_base_loader_def get_tensor_def file_get_tensor_def
        single_file_env_def sharded_env_def)
  show "get_tensor single_file_env single_base_loader ''model.q_proj.weight''
          = Inl (AttributeError ''base_model_prefix'')"
    by (simp add: single_base_loader_def get_tensor_def file_get_tensor_def
        single_file_env_def sharded_env_def)
qed

text \<open>
  On a loader as \<^verbatim>\<open>__init__\<close> builds it, \<^verbatim>\<open>get_tensor\<close> never raises
  \<^verbatim>\<open>SafetensorError\<close>: a name that the opened file does not have ends in the
  \<^verbatim>\<open>AttributeError\<close> of the missing \<^verbatim>\<open>base_model_prefix\<close>.
\<close>

theorem get_tensor_after_init_never_SafetensorError:
  assumes "SafetensorLoader_init E p = Inr self"
    and "get_tensor E self name = Inl e"
  shows "e \<noteq> SafetensorError"
  using assms init_result[OF assms(1)]
  by (auto simp: get_tensor_def dict_get_def file_get_tensor_def bind_err_def
      split: if_splits option.splits sum.splits)

theorem get_tensor_after_init_never_SafetensorError_witness:
  "SafetensorLoader_init single_file_env (Some ''base'') = Inr single_base_loader
   \<and> get_tensor single_file_env single_base_loader ''lm_head.weight''
       = Inl (AttributeError ''base_model_prefix'')
   \<and> AttributeError ''base_model_prefix'' \<noteq> SafetensorError"
proof -
  have 1: "SafetensorLoader_init single_file_env (Some ''base'') = Inr single_base_loader"
    by (simp add: init_single single_base_loader_def)
  have 2: "get_tensor single_file_env single_base_loader ''lm_head.weight''
             = Inl (AttributeError ''base_model_prefix'')"
    by (simp add: single_base_loader_def get_tensor_def file_get_tensor_def
        single_file_env_def sharded_env_def)
  note 3 = get_tensor_after_init_never_SafetensorError[OF 1 2]
  show ?thesis by (rule conjI[OF 1 conjI[OF 2 3]])
qed

subsection \<open>\<^verbatim>\<open>apply_safelora\<close> end to end\<close>

text \<open>
  \<^verbatim>\<open>select_layers\<close> changes at most the threshold of the configuration, and under the
  \<^verbatim>\<open>threshold\<close> policy it leaves \<^verbatim>\<open>final_wieghts\<close> unbound.
\<close>

lemma select_layers_config:
  assumes "select_layers T configs r v h = (res, configs', h')"
  shows "saveWeights configs' = saveWeights configs
       \<and> save_weights configs' = save_weights configs
       \<and> select_layers_type configs' = select_layers_type configs"
  using assms
  by (auto simp: select_layers_def Let_def split: if_splits prod.splits sum.splits)

lemma select_layers_threshold:
  assumes "select_layers_type configs = ''threshold''"
  shows "\<exists>e configs' h'. select_layers T configs r v h = (Inl e, configs', h')
           \<or> select_layers T configs r v h = (Inr None, configs', h')"
  using assms
  by (auto simp: select_layers_def split: prod.splits sum.splits)

lemma apply_safelora_tail_saveWeights:
  assumes "saveWeights configs = None"
  shows "\<exists>e configs'.
           (case select_layers T configs r v h0 of
              (Inl e, configs', h) \<Rightarrow> (Inl e, configs', E)
            | (Inr final_wieghts, configs', h) \<Rightarrow>
                save_and_return E configs' peft_path final_wieghts h) = (Inl e, configs', E)"
proof -
  obtain res c' h where sl: "select_layers T configs r v h0 = (res, c', h)"
    by (cases "select_layers T configs r v h0")
  from select_layers_config[OF sl] assms have "saveWeights c' = None" by simp
  then show ?thesis by (cases res) (simp_all add: sl save_and_return_def)
qed

text \<open>
  On a configuration object without the attribute \<^verbatim>\<open>saveWeights\<close>, as the dataclass
  builds every configuration, \<^verbatim>\<open>apply_safelora\<close> raises whatever the policy, the stores
  and the tensors are, and the file system is as it was.
\<close>

theorem apply_safelora_needs_saveWeights:
  assumes "saveWeights configs = None"
  shows "\<exists>e configs'. apply_safelora T E configs = (Inl e, configs', E)"
  unfolding apply_safelora_def
  by (simp split: option.splits sum.splits add: apply_safelora_tail_saveWeights[OF assms])

lemma apply_safelora_tail_threshold:
  assumes "select_layers_type configs = ''threshold''"
  shows "\<exists>e configs'.
           (case select_layers T configs r v h0 of
              (Inl e, configs', h) \<Rightarrow> (Inl e, configs', E)
            | (Inr final_wieghts, configs', h) \<Rightarrow>
                save_and_return E configs' peft_path final_wieghts h) = (Inl e, configs', E)"
proof -
  from select_layers_threshold[OF assms, of T r v h0] obtain e c' h where
    "select_layers T configs r v h0 = (Inl e, c', h)
     \<or> select_layers T configs r v h0 = (Inr None, c', h)"
    by blast
  then show ?thesis
  proof
    assume "select_layers T configs r v h0 = (Inl e, c', h)"
    then show ?thesis by simp
  next
    assume "select_layers T configs r v h0 = (Inr None, c', h)"
    then show ?thesis by (simp add: save_and_return_def split: option.splits)
  qed
qed

text \<open>
  Under the \<^verbatim>\<open>threshold\<close> policy \<^verbatim>\<open>apply_safelora\<close> raises on every input, also when
  the object has an attribute \<^verbatim>\<open>saveWeights\<close>: the name \<^verbatim>\<open>final_wieghts\<close> is unbound
  at lines 247 and 249.
\<close>

theorem apply_safelora_threshold_never_returns:
  assumes "select_layers_type configs = ''threshold''"
  shows "\<exists>e configs'. apply_safelora T E configs = (Inl e, configs', E)"
  unfolding apply_safelora_def
  by (simp split: option.splits sum.splits add: apply_safelora_tail_threshold[OF assms])

text \<open>
  The two passes on the concrete adapter, for any configuration on \<^verbatim>\<open>"cpu"\<close>: with
  threshold 0.5 both layers are replaced; on the projected adapter both scores are 1, so
  with a threshold below 1 the mapping stays as it is.
\<close>

lemma first_pass_any:
  assumes "devices c = ''cpu''" and "threshold c = Fin (1 / 2)"
  shows "project_weights exact c 0 [first_axis, first_axis] [0 \<mapsto> adapter_weights]
           = (Inr (0, [Fin (7 / 25), Fin (44 / 125)]), [0 \<mapsto> projected_weights])"
  using assms
  by (simp add: project_weights_def names_A_def names_B_def project_step_def dict_get_def
      py_index_def Let_def adapter_weights_def projected_weights_def first_axis_def exact_simps)

lemma second_pass_any:
  assumes "devices c = ''cpu''" and "threshold c = Fin t" and "t < 1"
  shows "project_weights exact c 0 [first_axis, first_axis] [0 \<mapsto> projected_weights]
           = (Inr (0, [Fin 1, Fin 1]), [0 \<mapsto> projected_weights])"
  using assms
  by (simp add: project_weights_def names_A_def names_B_def project_step_def dict_get_def
      py_index_def Let_def projected_weights_def first_axis_def exact_simps)

lemma derived_threshold:
  "py_last (py_slice_to (numpy_sort [Fin (7 / 25), Fin (44 / 125)]) 1) = Inr (Fin (7 / 25))"
  by (simp add: py_last_def py_slice_to_def numpy_sort_def)

lemma select_threshold_run:
  assumes "select_layers_type c = ''threshold''" and "devices c = ''cpu''"
    and "threshold c = Fin (1 / 2)"
  shows "select_layers exact c 0 [first_axis, first_axis] [0 \<mapsto> adapter_weights]
           = (Inr None, c, [0 \<mapsto> projected_weights])"
  by (simp add: select_layers_def assms(1) first_pass_any[OF assms(2,3)])

lemma select_number_run:
  assumes "select_layers_type c = ''number''" and "devices c = ''cpu''"
    and "threshold c = Fin (1 / 2)" and "num_proj_layers c = 1"
  shows "select_layers exact c 0 [first_axis, first_axis] [0 \<mapsto> adapter_weights]
           = (Inr (Some 0), c\<lparr>threshold := Fin (7 / 25)\<rparr>, [0 \<mapsto> projected_weights])"
proof -
  have second: "project_weights exact (c\<lparr>threshold := Fin (7 / 25)\<rparr>) 0 [first_axis, first_axis]
                  [0 \<mapsto> projected_weights]
                = (Inr (0, [Fin 1, Fin 1]), [0 \<mapsto> projected_weights])"
    by (rule second_pass_any[where t = "7 / 25"]) (simp_all add: assms(2))
  show ?thesis
    by (simp add: select_layers_def assms(1,4) first_pass_any[OF assms(2,3)] derived_threshold
        second Let_def)
qed

lemma config_sharded:
  "adapter_configs sharded_env (os_path_join ''peft'' ''adapter_config.json'')
     = Some (Some (ModList [''q_proj'', ''v_proj'']))"
  by (simp add: sharded_env_def path_simps)

lemma load_sharded:
  "load_peft_weights exact sharded_env ''cpu'' ''peft'' = Inr adapter_weights"
  by (simp add: load_peft_weights_def sharded_env_def path_simps adapter_weights_def exact_def)

lemma apply_safelora_sharded:
  assumes "base_model_path c = Some ''base''" and "aligned_model_path c = Some ''aligned''"
    and "peft_model_path c = Some ''peft''" and "devices c = ''cpu''"
  shows "apply_safelora exact sharded_env c
           = (case select_layers exact c 0 [first_axis, first_axis] [0 \<mapsto> adapter_weights] of
                (Inl e, c', h) \<Rightarrow> (Inl e, c', sharded_env)
              | (Inr final_wieghts, c', h) \<Rightarrow>
                  save_and_return sharded_env c' ''peft'' final_wieghts h)"
  by (simp add: apply_safelora_def assms config_sharded aligned_sharded load_sharded)

lemma threshold_config_fields:
  "base_model_path threshold_config = Some ''base''"
  "aligned_model_path threshold_config = Some ''aligned''"
  "peft_model_path threshold_config = Some ''peft''"
  "select_layers_type threshold_config = ''threshold''"
  "threshold threshold_config = Fin (1 / 2)"
  "num_proj_layers threshold_config = 1"
  "devices threshold_config = ''cpu''"
  "save_weights threshold_config = True"
  "saveWeights threshold_config = None"
  by (simp_all add: threshold_config_def)

theorem apply_safelora_needs_saveWeights_witness:
  "saveWeights number_config = None
   \<and> (\<exists>e configs'. apply_safelora exact sharded_env number_config = (Inl e, configs', sharded_env))"
proof -
  have 1: "saveWeights number_config = None"
    by (simp add: number_config_def threshold_config_fields)
  from 1 apply_safelora_needs_saveWeights[OF 1, of exact sharded_env] show ?thesis
    by (rule conjI)
qed

theorem apply_safelora_threshold_never_returns_witness:
  "select_layers_type (threshold_config\<lparr>saveWeights := Some False\<rparr>) = ''threshold''
   \<and> (\<exists>e configs'. apply_safelora exact sharded_env (threshold_config\<lparr>saveWeights := Some False\<rparr>)
                      = (Inl e, configs', sharded_env))"
proof -
  have 1: "select_layers_type (threshold_config\<lparr>saveWeights := Some False\<rparr>) = ''threshold''"
    by (simp add: threshold_config_fields)
  from 1 apply_safelora_threshold_never_returns[OF 1, of exact sharded_env] show ?thesis
    by (rule conjI)
qed

subsection \<open>The threshold that the \<^verbatim>\<open>number\<close> policy derives\<close>

lemma length_np_insert: "length (np_insert x xs) = Suc (length xs)"
  by (induction xs) simp_all

lemma length_numpy_sort: "length (numpy_sort xs) = length xs"
  by (induction xs) (simp_all add: numpy_sort_def length_np_insert)

lemma set_np_insert: "set (np_insert x xs) = insert x (set xs)"
  by (induction xs) auto

lemma set_numpy_sort: "set (numpy_sort xs) = set xs"
  by (induction xs) (simp_all add: numpy_sort_def set_np_insert)

lemma np_le_total: "np_le x y \<or> np_le y x"
  by (cases x; cases y) auto

lemma np_le_trans: "np_le x y \<Longrightarrow> np_le y z \<Longrightarrow> np_le x z"
  by (cases x; cases y; cases z) auto

lemma sorted_np_insert: "sorted_wrt np_le xs \<Longrightarrow> sorted_wrt np_le (np_insert x xs)"
proof (induction xs)
  case Nil
  then show ?case by simp
next
  case (Cons y ys)
  show ?case
  proof (cases "np_le x y")
    case True
    with Cons.prems np_le_trans show ?thesis by auto
  next
    case False
    with np_le_total have "np_le y x" by blast
    with False Cons show ?thesis by (auto simp: set_np_insert)
  qed
qed

lemma sorted_numpy_sort: "sorted_wrt np_le (numpy_sort xs)"
  by (induction xs) (simp_all add: numpy_sort_def sorted_np_insert)

text \<open>
  Line 242, \<^verbatim>\<open>numpy.sort(cos)[: configs.num_proj_layers][-1]\<close>. The sorted scores are the
  first-pass scores in ascending order (not-a-number last). For \<open>k \<ge> 1\<close> requested layers
  and at least one score, the expression is the \<open>k\<close>-th smallest score, and the largest
  score when \<open>k\<close> exceeds their number: the slice stops at the end, nothing is indexed out
  of bounds.
\<close>

theorem derived_threshold_is_clamped_kth_smallest:
  assumes "1 \<le> k" and "cos_total \<noteq> []"
  shows "py_last (py_slice_to (numpy_sort cos_total) k)
           = Inr (numpy_sort cos_total ! (min (nat k) (length cos_total) - 1))
         \<and> sorted_wrt np_le (numpy_sort cos_total)
         \<and> set (numpy_sort cos_total) = set cos_total
         \<and> length (numpy_sort cos_total) = length cos_total"
proof -
  let ?s = "numpy_sort cos_total"
  from assms(2) have ne: "?s \<noteq> []" using length_numpy_sort[of cos_total] by auto
  from assms(1) have k: "0 < nat k" by simp
  with ne have tne: "take (nat k) ?s \<noteq> []" by simp
  have "last (take (nat k) ?s) = take (nat k) ?s ! (length (take (nat k) ?s) - 1)"
    using tne by (rule last_conv_nth)
  also have "\<dots> = ?s ! (min (nat k) (length cos_total) - 1)"
    using k ne by (simp add: length_numpy_sort min.commute)
  finally have "last (take (nat k) ?s) = ?s ! (min (nat k) (length cos_total) - 1)" .
  with assms(1) tne have "py_last (py_slice_to ?s k)
      = Inr (?s ! (min (nat k) (length cos_total) - 1))"
    by (simp add: py_last_def py_slice_to_def)
  then show ?thesis
    by (simp add: sorted_numpy_sort set_numpy_sort length_numpy_sort)
qed

theorem derived_threshold_is_clamped_kth_smallest_witness:
  "(1 :: int) \<le> 5 \<and> [Fin (44 / 125), Fin (7 / 25)] \<noteq> []
   \<and> py_last (py_slice_to (numpy_sort [Fin (44 / 125), Fin (7 / 25)]) 5)
       = Inr (numpy_sort [Fin (44 / 125), Fin (7 / 25)]
                ! (min (nat 5) (length [Fin (44 / 125), Fin (7 / 25)]) - 1))
   \<and> numpy_sort [Fin (44 / 125), Fin (7 / 25)]
        ! (min (nat 5) (length [Fin (44 / 125), Fin (7 / 25)]) - 1) = Fin (44 / 125)"
proof -
  have 1: "(1 :: int) \<le> 5" by simp
  have 2: "[Fin (44 / 125), Fin (7 / 25)] \<noteq> []" by simp
  from derived_threshold_is_clamped_kth_smallest[OF 1 2]
  have 3: "py_last (py_slice_to (numpy_sort [Fin (44 / 125), Fin (7 / 25)]) 5)
       = Inr (numpy_sort [Fin (44 / 125), Fin (7 / 25)]
                ! (min (nat 5) (length [Fin (44 / 125), Fin (7 / 25)]) - 1))"
    by (rule conjunct1)
  have 4: "numpy_sort [Fin (44 / 125), Fin (7 / 25)]
        ! (min (nat 5) (length [Fin (44 / 125), Fin (7 / 25)]) - 1) = Fin (44 / 125)"
    by (simp add: numpy_sort_def)
  show ?thesis by (rule conjI[OF 1 conjI[OF 2 conjI[OF 3 4]]])
qed

text \<open>
  With \<^verbatim>\<open>num_proj_layers = 0\<close>, or with no pair of factors to score, the slice is empty
  and line 242 raises \<^verbatim>\<open>IndexError\<close>.
\<close>

theorem derived_threshold_raises_on_empty_slice:
  "py_last (py_slice_to (numpy_sort cos_total) 0) = Inl IndexError
   \<and> py_last (py_slice_to (numpy_sort []) k) = Inl IndexError"
  by (simp add: py_last_def py_slice_to_def numpy_sort_def)

text \<open>
  Claim C6 does not hold of the code. The configuration is the one the dataclass builds for
  the \<^verbatim>\<open>threshold\<close> policy with \<^verbatim>\<open>save_weights=True\<close>; the stores are sharded and well
  formed. \<^verbatim>\<open>apply_safelora\<close> raises \<^verbatim>\<open>AttributeError\<close> at line 246, which reads
  \<^verbatim>\<open>configs.saveWeights\<close> while the field is \<^verbatim>\<open>save_weights\<close>: no mapping is returned and
  the adapter file is not written. The \<^verbatim>\<open>number\<close> policy ends the same way. When a caller
  has set an attribute \<^verbatim>\<open>saveWeights\<close> on the object, the \<^verbatim>\<open>threshold\<close> policy raises
  \<^verbatim>\<open>UnboundLocalError\<close>: line 239 binds \<^verbatim>\<open>final_weights\<close>, lines 247 and 249 read
  \<^verbatim>\<open>final_wieghts\<close>.
\<close>

theorem apply_safelora_raises_on_dataclass_config:
  "SafeLoraConfig_new (Some ''base'') (Some ''aligned'') (Some ''peft'') ''threshold''
     (Fin (1 / 2)) 1 ''cpu'' True = Inr threshold_config
   \<and> apply_safelora exact sharded_env threshold_config
       = (Inl (AttributeError ''saveWeights''), threshold_config, sharded_env)
   \<and> apply_safelora exact sharded_env number_config
       = (Inl (AttributeError ''saveWeights''), number_config\<lparr>threshold := Fin (7 / 25)\<rparr>,
          sharded_env)
   \<and> apply_safelora exact sharded_env (threshold_config\<lparr>saveWeights := Some True\<rparr>)
       = (Inl (UnboundLocalError ''final_wieghts''), threshold_config\<lparr>saveWeights := Some True\<rparr>,
          sharded_env)"
proof (intro conjI)
  show "SafeLoraConfig_new (Some ''base'') (Some ''aligned'') (Some ''peft'') ''threshold''
          (Fin (1 / 2)) 1 ''cpu'' True = Inr threshold_config"
    by (simp add: SafeLoraConfig_new_def post_init_def threshold_config_def)
  show "apply_safelora exact sharded_env threshold_config
          = (Inl (AttributeError ''saveWeights''), threshold_config, sharded_env)"
    by (simp add: apply_safelora_sharded select_threshold_run threshold_config_fields
        save_and_return_def)
  show "apply_safelora exact sharded_env number_config
          = (Inl (AttributeError ''saveWeights''), number_config\<lparr>threshold := Fin (7 / 25)\<rparr>,
             sharded_env)"
    by (simp add: apply_safelora_sharded select_number_run number_config_def
        threshold_config_fields save_and_return_def)
  show "apply_safelora exact sharded_env (threshold_config\<lparr>saveWeights := Some True\<rparr>)
          = (Inl (UnboundLocalError ''final_wieghts''),
             threshold_config\<lparr>saveWeights := Some True\<rparr>, sharded_env)"
    by (simp add: apply_safelora_sharded select_threshold_run threshold_config_fields
        save_and_return_def)
qed

text \<open>
  Claim C2 does not hold of the code. The configuration asks for the \<^verbatim>\<open>number\<close> policy with
  \<^verbatim>\<open>num_proj_layers = 1\<close> and the default threshold 0.5. The first pass scores the two
  layers 0.28 and 0.352, and, both being below 0.5, stores both projections in the mapping.
  The derived threshold is the smallest score, 0.28, and exactly one first-pass score is
  \<open>\<le>\<close> it. The second pass receives the same mapping object: it finds both layers already
  projected, scores them 1 and 1, and replaces nothing. The mapping that comes out has both
  \<^verbatim>\<open>lora_B\<close> factors projected, not one. The last conjunct is the whole of
  \<^verbatim>\<open>apply_safelora\<close> on a configuration object on which the caller has set
  \<^verbatim>\<open>saveWeights = False\<close> (without that attribute the call raises, see C6).
\<close>

theorem number_policy_keeps_first_pass_replacements:
  "fst (project_weights exact number_config 0 [first_axis, first_axis] [0 \<mapsto> adapter_weights])
     = Inr (0, [Fin (7 / 25), Fin (44 / 125)])
   \<and> length (filter (\<lambda>c. float_le c (Fin (7 / 25))) [Fin (7 / 25), Fin (44 / 125)]) = 1
   \<and> select_layers exact number_config 0 [first_axis, first_axis] [0 \<mapsto> adapter_weights]
       = (Inr (Some 0), number_config\<lparr>threshold := Fin (7 / 25)\<rparr>, [0 \<mapsto> projected_weights])
   \<and> map_of adapter_weights ''q_proj.lora_B.weight'' = Some [[Fin 7], [Fin 24]]
   \<and> map_of adapter_weights ''v_proj.lora_B.weight'' = Some [[Fin 44], [Fin 117]]
   \<and> map_of projected_weights ''q_proj.lora_B.weight'' = Some [[Fin 7], [Fin 0]]
   \<and> map_of projected_weights ''v_proj.lora_B.weight'' = Some [[Fin 44], [Fin 0]]
   \<and> apply_safelora exact sharded_env (number_config\<lparr>saveWeights := Some False\<rparr>)
       = (Inr projected_weights,
          number_config\<lparr>threshold := Fin (7 / 25), saveWeights := Some False\<rparr>, sharded_env)"
proof (intro conjI)
  show "fst (project_weights exact number_config 0 [first_axis, first_axis]
          [0 \<mapsto> adapter_weights]) = Inr (0, [Fin (7 / 25), Fin (44 / 125)])"
    by (simp add: first_pass_any number_config_def threshold_config_fields)
  show "length (filter (\<lambda>c. float_le c (Fin (7 / 25))) [Fin (7 / 25), Fin (44 / 125)]) = 1"
    by simp
  show "select_layers exact number_config 0 [first_axis, first_axis] [0 \<mapsto> adapter_weights]
          = (Inr (Some 0), number_config\<lparr>threshold := Fin (7 / 25)\<rparr>,
             [0 \<mapsto> projected_weights])"
    by (simp add: select_number_run number_config_def threshold_config_fields)
  show "map_of adapter_weights ''q_proj.lora_B.weight'' = Some [[Fin 7], [Fin 24]]"
    by (simp add: adapter_weights_def)
  show "map_of adapter_weights ''v_proj.lora_B.weight'' = Some [[Fin 44], [Fin 117]]"
    by (simp add: adapter_weights_def)
  show "map_of projected_weights ''q_proj.lora_B.weight'' = Some [[Fin 7], [Fin 0]]"
    by (simp add: projected_weights_def)
  show "map_of projected_weights ''v_proj.lora_B.weight'' = Some [[Fin 44], [Fin 0]]"
    by (simp add: projected_weights_def)
  show "apply_safelora exact sharded_env (number_config\<lparr>saveWeights := Some False\<rparr>)
          = (Inr projected_weights,
             number_config\<lparr>threshold := Fin (7 / 25), saveWeights := Some False\<rparr>, sharded_env)"
    by (simp add: apply_safelora_sharded select_number_run number_config_def
        threshold_config_fields save_and_return_def)
qed

subsection \<open>The \<^verbatim>\<open>number\<close> policy when the first pass replaces nothing\<close>

text \<open>
  The scores of a pass do not depend on the threshold, and a pass that replaces no layer
  leaves the mapping as it was.
\<close>

lemma project_step_threshold_irrelevant:
  "devices c' = devices c \<Longrightarrow>
   project_step T c' ori v idx name_A name_B = project_step T c ori v idx name_A name_B"
  unfolding project_step_def by (erule ssubst) (rule refl)

lemma project_step_B:
  "project_step T c ori v idx name_A name_B = Inr (W, B, s) \<Longrightarrow> map_of ori name_B = Some B"
  by (auto simp: project_step_eq_Inr)

lemma project_loop_noop:
  assumes "project_loop T c w v pairs idx i dis cs w = (w', Inr cs')"
    and "list_all (\<lambda>s. \<not> float_le s (threshold c)) (drop (length cs) cs')"
  shows "w' = w"
  using assms
proof (induction pairs arbitrary: idx i dis cs)
  case Nil
  then show ?case by simp
next
  case (Cons p pairs)
  obtain a b where p: "p = (a, b)" by (cases p)
  from Cons.prems(1) p obtain W B s d where
    step: "project_step T c w v idx a b = Inr (W, B, s)" and
    rest: "project_loop T c w v pairs (idx + 1)
             (if float_le s (threshold c) then i + 1 else i) (dis @ [d]) (cs @ [s])
             (AList.update b (if float_le s (threshold c) then W else B) w) = (w', Inr cs')"
    by (auto simp: Let_def split: sum.splits prod.splits)
  from project_loop_scores[OF rest] obtain ds where cs': "cs' = (cs @ [s]) @ ds" by blast
  with Cons.prems(2) have s: "\<not> float_le s (threshold c)"
    and tail: "list_all (\<lambda>s. \<not> float_le s (threshold c)) (drop (length (cs @ [s])) cs')"
    by simp_all
  from project_step_B[OF step] have "AList.update b B w = w" by (rule update_triv)
  with rest s have "project_loop T c w v pairs (idx + 1) i (dis @ [d]) (cs @ [s]) w = (w', Inr cs')"
    by simp
  from Cons.IH[OF this tail] show ?case .
qed

text \<open>
  When every first-pass score is above the configured threshold, the first pass leaves the
  mapping untouched, and the \<^verbatim>\<open>number\<close> policy does what is expected of it: the
  threshold becomes the derived one, and the mapping that comes out holds, for the \<open>i\<close>-th
  pair, the projection \<open>W\<close> if the first-pass score of the layer is \<open>\<le>\<close> the derived
  threshold and the original \<open>B\<close> otherwise.
\<close>

theorem number_policy_when_first_pass_replaces_nothing:
  assumes "h r = Some w" and "distinct (map fst w)"
    and "select_layers_type configs = ''number''"
    and "project_weights T configs r v h = (Inr (r1, cos_total), h1)"
    and "list_all (\<lambda>s. \<not> float_le s (threshold configs)) cos_total"
    and "select_layers T configs r v h = (Inr final_wieghts, configs', h2)"
    and "i < length (zip (names_A w) (names_B w))"
    and "zip (names_A w) (names_B w) ! i = (name_A, name_B)"
  shows "\<exists>thrs W B w2.
           py_last (py_slice_to (numpy_sort cos_total) (num_proj_layers configs)) = Inr thrs
           \<and> configs' = configs\<lparr>threshold := thrs\<rparr> \<and> final_wieghts = Some r
           \<and> h1 r = Some w \<and> h2 r = Some w2
           \<and> project_step T configs w v i name_A name_B = Inr (W, B, cos_total ! i)
           \<and> map_of w2 name_B = Some (if float_le (cos_total ! i) thrs then W else B)"
proof -
  let ?pairs = "zip (names_A w) (names_B w)"
  from project_weights_success[OF assms(4)] assms(1) obtain w1 where
    r1: "r1 = r" and h1: "h1 = h(r \<mapsto> w1)" and
    loop1: "project_loop T configs w v ?pairs 0 0 [] [] w = (w1, Inr cos_total)"
    by auto
  from project_loop_noop[OF loop1] assms(5) have w1: "w1 = w" by simp
  with h1 have h1r: "h1 r = Some w" by simp
  have ne: "select_layers_type configs \<noteq> ''threshold''" using assms(3) by simp
  from assms(6) obtain thrs r2 cs2 where
    thrs: "py_last (py_slice_to (numpy_sort cos_total) (num_proj_layers configs)) = Inr thrs" and
    c': "configs' = configs\<lparr>threshold := thrs\<rparr>" and
    fw: "final_wieghts = Some r2" and
    second: "project_weights T (configs\<lparr>threshold := thrs\<rparr>) r v h1 = (Inr (r2, cs2), h2)"
    unfolding select_layers_def
    by (auto simp: ne assms(3,4) Let_def split: sum.splits prod.splits)
  from project_weights_success[OF second] h1r obtain w2 where
    r2: "r2 = r" and h2: "h2 = h1(r \<mapsto> w2)" and
    loop2: "project_loop T (configs\<lparr>threshold := thrs\<rparr>) w v ?pairs 0 0 [] [] w = (w2, Inr cs2)"
    by auto
  from project_loop_layer[OF loop1 assms(7) zip_names_B_distinct[OF assms(2)]] assms(8)
  obtain W B where step1: "project_step T configs w v i name_A name_B = Inr (W, B, cos_total ! i)"
    by auto
  from project_loop_layer[OF loop2 assms(7) zip_names_B_distinct[OF assms(2)]] assms(8)
  obtain W' B' s' where
    step2: "project_step T (configs\<lparr>threshold := thrs\<rparr>) w v i name_A name_B = Inr (W', B', s')"
    and final: "map_of w2 name_B = Some (if float_le s' thrs then W' else B')"
    by auto
  have "project_step T (configs\<lparr>threshold := thrs\<rparr>) w v i name_A name_B
          = project_step T configs w v i name_A name_B"
    by (rule project_step_threshold_irrelevant) simp
  with step1 step2 have "W' = W" "B' = B" "s' = cos_total ! i" by simp_all
  with final thrs c' fw r2 h1r h2 step1 show ?thesis by simp
qed

lemma low_threshold_first_pass:
  "project_weights exact low_threshold_config 0 [first_axis, first_axis] [0 \<mapsto> adapter_weights]
     = (Inr (0, [Fin (7 / 25), Fin (44 / 125)]), [0 \<mapsto> adapter_weights])"
  by (simp add: project_weights_def names_A_def names_B_def project_step_def dict_get_def
      py_index_def Let_def adapter_weights_def low_threshold_config_def number_config_def
      threshold_config_def first_axis_def exact_simps)

lemma low_threshold_second_pass:
  "project_weights exact (low_threshold_config\<lparr>threshold := Fin (7 / 25)\<rparr>) 0
     [first_axis, first_axis] [0 \<mapsto> adapter_weights]
     = (Inr (0, [Fin (7 / 25), Fin (44 / 125)]), [0 \<mapsto> first_layer_projected])"
  by (simp add: project_weights_def names_A_def names_B_def project_step_def dict_get_def
      py_index_def Let_def adapter_weights_def first_layer_projected_def
      low_threshold_config_def number_config_def threshold_config_def first_axis_def exact_simps)

lemma low_threshold_select:
  "select_layers exact low_threshold_config 0 [first_axis, first_axis] [0 \<mapsto> adapter_weights]
     = (Inr (Some 0), low_threshold_config\<lparr>threshold := Fin (7 / 25)\<rparr>,
        [0 \<mapsto> first_layer_projected])"
proof -
  have fields: "select_layers_type low_threshold_config = ''number''"
    "num_proj_layers low_threshold_config = 1"
    by (simp_all add: low_threshold_config_def number_config_def threshold_config_def)
  show ?thesis
    by (simp add: select_layers_def fields low_threshold_first_pass derived_threshold
        low_threshold_second_pass Let_def)
qed

theorem number_policy_when_first_pass_replaces_nothing_witness:
  "([0 \<mapsto> adapter_weights] :: tensor store) 0 = Some adapter_weights
   \<and> distinct (map fst adapter_weights)
   \<and> select_layers_type low_threshold_config = ''number''
   \<and> project_weights exact low_threshold_config 0 [first_axis, first_axis]
        [0 \<mapsto> adapter_weights]
       = (Inr (0, [Fin (7 / 25), Fin (44 / 125)]), [0 \<mapsto> adapter_weights])
   \<and> list_all (\<lambda>s. \<not> float_le s (threshold low_threshold_config))
        [Fin (7 / 25), Fin (44 / 125)]
   \<and> select_layers exact low_threshold_config 0 [first_axis, first_axis]
        [0 \<mapsto> adapter_weights]
       = (Inr (Some 0), low_threshold_config\<lparr>threshold := Fin (7 / 25)\<rparr>,
          [0 \<mapsto> first_layer_projected])
   \<and> 0 < length (zip (names_A adapter_weights) (names_B adapter_weights))
   \<and> zip (names_A adapter_weights) (names_B adapter_weights) ! 0
       = (''q_proj.lora_A.weight'', ''q_proj.lora_B.weight'')
   \<and> (\<exists>thrs W B w2.
         py_last (py_slice_to (numpy_sort [Fin (7 / 25), Fin (44 / 125)])
           (num_proj_layers low_threshold_config)) = Inr thrs
         \<and> low_threshold_config\<lparr>threshold := Fin (7 / 25)\<rparr>
             = low_threshold_config\<lparr>threshold := thrs\<rparr>
         \<and> Some (0 :: ref) = Some 0
         \<and> ([0 \<mapsto> adapter_weights] :: tensor store) 0 = Some adapter_weights
         \<and> ([0 \<mapsto> first_layer_projected] :: tensor store) 0 = Some w2
         \<and> project_step exact low_threshold_config adapter_weights [first_axis, first_axis] 0
              ''q_proj.lora_A.weight'' ''q_proj.lora_B.weight''
             = Inr (W, B, [Fin (7 / 25), Fin (44 / 125)] ! 0)
         \<and> map_of w2 ''q_proj.lora_B.weight''
             = Some (if float_le ([Fin (7 / 25), Fin (44 / 125)] ! 0) thrs then W else B))"
proof -
  have 1: "([0 \<mapsto> adapter_weights] :: tensor store) 0 = Some adapter_weights" by simp
  have 2: "distinct (map fst adapter_weights)" by (simp add: adapter_weights_def)
  have 3: "select_layers_type low_threshold_config = ''number''"
    by (simp add: low_threshold_config_def number_config_def threshold_config_def)
  have 5: "list_all (\<lambda>s. \<not> float_le s (threshold low_threshold_config))
             [Fin (7 / 25), Fin (44 / 125)]"
    by (simp add: low_threshold_config_def)
  have 7: "0 < length (zip (names_A adapter_weights) (names_B adapter_weights))"
    by (simp add: names_adapter)
  have 8: "zip (names_A adapter_weights) (names_B adapter_weights) ! 0
             = (''q_proj.lora_A.weight'', ''q_proj.lora_B.weight'')"
    by (simp add: names_adapter)
  note 9 = number_policy_when_first_pass_replaces_nothing[OF 1 2 3 low_threshold_first_pass 5
      low_threshold_select 7 8]
  show ?thesis
    by (rule conjI[OF 1 conjI[OF 2 conjI[OF 3 conjI[OF low_threshold_first_pass
          conjI[OF 5 conjI[OF low_threshold_select conjI[OF 7 conjI[OF 8 9]]]]]]]])
qed

end
